theory Spec2Isabelle
  imports Main "HOL-Library.Word" "HOL-Library.Log_Nat"
begin

section \<open>Constants and the screen enumeration (main.cpp, lines 8-24)\<close>

text \<open>
  The coordinates of the program are C++ \<open>int\<close>s. Every coordinate that the game
  produces is a pixel position on an 800 by 600 screen, so the kinematics is modelled
  on mathematical integers; the model agrees with the program as long as no
  intermediate sum leaves the 32-bit range (beyond which C++ leaves the behaviour
  undefined). The carousel indices, where the program relies on the wrap-around of
  an unsigned conversion, are modelled on machine words further below.
\<close>

definition SCREEN_WIDTH :: int where "SCREEN_WIDTH = 800"
definition SCREEN_HEIGHT :: int where "SCREEN_HEIGHT = 600"
definition GROUND_LEVEL :: int where "GROUND_LEVEL = SCREEN_HEIGHT - 50"
definition PLATFORM_HEIGHT :: int where "PLATFORM_HEIGHT = 20"
definition PLATFORM_WIDTH :: int where "PLATFORM_WIDTH = 150"

datatype GameState = MainMenu | MapScreen | SkinScreen | GameScreen | WinScreen | LoseScreen

section \<open>Single-precision numbers\<close>

text \<open>
  \<open>velY\<close>, \<open>GRAVITY\<close> and \<open>JUMP_SPEED\<close> are C++ \<open>float\<close>s. A finite binary32
  value is modelled by the rational number it denotes. \<open>f32\<close> rounds a rational to
  the nearest binary32 value, ties to the even significand (24 significant bits,
  least normal exponent -126, below it the fixed spacing \<open>2\<^sup>-\<^sup>1\<^sup>4\<^sup>9\<close> of the
  subnormals). Infinities and NaN do not arise: the only float operation of
  the program adds \<open>GRAVITY\<close> to a finite value, which cannot overflow.
\<close>

type_synonym float = rat

definition pow2 :: "int \<Rightarrow> rat" where
  "pow2 e = (if 0 \<le> e then 2 ^ nat e else 1 / 2 ^ nat (- e))"

text \<open>\<open>ilog2 v\<close> is \<open>\<lfloor>log\<^sub>2 v\<rfloor>\<close> for a positive rational \<open>v\<close>.\<close>

definition ilog2 :: "rat \<Rightarrow> int" where
  "ilog2 v = (case quotient_of v of (p, q) \<Rightarrow>
     (let e = bitlen p - bitlen q in if pow2 e \<le> v then e else e - 1))"

definition round_even :: "rat \<Rightarrow> int" where
  "round_even v = (let f = \<lfloor>v\<rfloor>; d = v - of_int f in
     if d < 1 / 2 then f else if 1 / 2 < d then f + 1 else if even f then f else f + 1)"

definition f32 :: "rat \<Rightarrow> float" where
  "f32 v = (if v = 0 then 0 else
     (let e = max (ilog2 \<bar>v\<bar>) (- 126); q = pow2 (e - 23)
      in of_int (round_even (v / q)) * q))"

definition fadd :: "float \<Rightarrow> float \<Rightarrow> float" where
  "fadd a b = f32 (a + b)"

text \<open>\<open>static_cast<int>\<close> of a float discards the fractional part (rounds toward zero).\<close>

definition float_to_int :: "float \<Rightarrow> int" where
  "float_to_int v = (if 0 \<le> v then \<lfloor>v\<rfloor> else \<lceil>v\<rceil>)"

definition GRAVITY :: float where "GRAVITY = f32 (2 / 10)"
definition JUMP_SPEED :: float where "JUMP_SPEED = f32 (- 6)"

section \<open>Rectangles, platforms and the player (lines 63-82, 122-198)\<close>

record SDL_Rect =
  x :: int
  y :: int
  w :: int
  h :: int

abbreviation bottomEdge :: "SDL_Rect \<Rightarrow> int" where
  "bottomEdge r \<equiv> y r + h r"

abbreviation rightEdge :: "SDL_Rect \<Rightarrow> int" where
  "rightEdge r \<equiv> x r + w r"

text \<open>A \<open>Platform\<close> holds one rectangle; \<open>getRect\<close> returns it.\<close>

datatype Platform = Platform int int int int

fun getRect :: "Platform \<Rightarrow> SDL_Rect" where
  "getRect (Platform px py pw ph) = \<lparr>x = px, y = py, w = pw, h = ph\<rparr>"

text \<open>
  The fields of \<open>Player\<close> that the update reads or writes. The texture handle only
  feeds the drawing call, and \<open>onAnyPlatform\<close> is never read or written.
\<close>

record Player =
  rect :: SDL_Rect
  speed :: int
  velY :: float
  onGround :: bool

text \<open>The constructor: \<open>speed(3), velY(0)\<close>.\<close>

definition new_Player :: "int \<Rightarrow> int \<Rightarrow> int \<Rightarrow> int \<Rightarrow> bool \<Rightarrow> Player" where
  "new_Player px py pw ph g =
     \<lparr>rect = \<lparr>x = px, y = py, w = pw, h = ph\<rparr>, speed = 3, velY = 0, onGround = g\<rparr>"

text \<open>
  The keyboard state is an array of bytes indexed by scancode; a key is held when its
  byte is not zero. The update reads three scancodes.
\<close>

datatype scancode = SDL_SCANCODE_A | SDL_SCANCODE_D | SDL_SCANCODE_W

type_synonym keyboard = "scancode \<Rightarrow> 8 word"

section \<open>\<open>Player::update\<close> (lines 128-179), step by step\<close>

text \<open>Lines 130-141: the horizontal move and the two clamps.\<close>

definition moveHorizontal :: "keyboard \<Rightarrow> Player \<Rightarrow> Player" where
  "moveHorizontal state p =
     (let moveX = 0;
          moveX = (if state SDL_SCANCODE_A \<noteq> 0 then moveX - speed p else moveX);
          moveX = (if state SDL_SCANCODE_D \<noteq> 0 then moveX + speed p else moveX);
          r = rect p;
          r = r\<lparr>x := x r + moveX\<rparr>;
          r = (if x r < 0 then r\<lparr>x := 0\<rparr> else r);
          r = (if x r + w r > SCREEN_WIDTH then r\<lparr>x := SCREEN_WIDTH - w r\<rparr> else r)
      in p\<lparr>rect := r\<rparr>)"

text \<open>
  Lines 143-145: gravity, then the vertical move by the truncated velocity. The
  \<open>SDL_Delay(5)\<close> that follows only paces the loop.
\<close>

definition applyGravity :: "Player \<Rightarrow> Player" where
  "applyGravity p =
     (let v = fadd (velY p) GRAVITY;
          r = rect p
      in p\<lparr>velY := v, rect := r\<lparr>y := y r + float_to_int v\<rparr>\<rparr>)"

text \<open>Lines 151-152: the test of one platform against the player's rectangle.\<close>

definition hits :: "Player \<Rightarrow> Platform \<Rightarrow> bool" where
  "hits p pl =
     (let r = rect p; platformRect = getRect pl
      in y r + h r \<ge> y platformRect \<and> y r + h r \<le> y platformRect + h platformRect \<and>
         x r + w r > x platformRect \<and> x r < x platformRect + w platformRect)"

text \<open>Lines 154-156: the snap onto a platform.\<close>

definition landOn :: "Player \<Rightarrow> Platform \<Rightarrow> Player" where
  "landOn p pl =
     (let r = rect p; platformRect = getRect pl
      in p\<lparr>rect := r\<lparr>y := y platformRect - h r\<rparr>, onGround := True, velY := 0\<rparr>)"

text \<open>Lines 148-159: the loop over the platforms, left at the first hit.\<close>

fun collidePlatforms :: "Player \<Rightarrow> Platform list \<Rightarrow> Player" where
  "collidePlatforms p [] = p"
| "collidePlatforms p (pl # pls) =
     (if hits p pl then landOn p pl else collidePlatforms p pls)"

text \<open>Lines 161-167: the ground line.\<close>

definition groundCheck :: "Player \<times> GameState \<Rightarrow> Player \<times> GameState" where
  "groundCheck pg =
     (case pg of (p, gameState) \<Rightarrow>
       (let r = rect p in
        if y r + h r \<ge> GROUND_LEVEL
        then (p\<lparr>rect := r\<lparr>y := GROUND_LEVEL - h r\<rparr>, onGround := True, velY := 0\<rparr>, LoseScreen)
        else (p, gameState)))"

text \<open>Lines 169-172: the right edge of the screen.\<close>

definition winCheck :: "Player \<times> GameState \<Rightarrow> Player \<times> GameState" where
  "winCheck pg =
     (case pg of (p, gameState) \<Rightarrow>
       (if x (rect p) + w (rect p) \<ge> SCREEN_WIDTH then (p, WinScreen) else (p, gameState)))"

text \<open>Lines 174-178: the jump.\<close>

definition jumpCheck :: "keyboard \<Rightarrow> Player \<Rightarrow> Player" where
  "jumpCheck state p =
     (if onGround p \<and> state SDL_SCANCODE_W \<noteq> 0
      then p\<lparr>onGround := False, velY := JUMP_SPEED\<rparr> else p)"

text \<open>Lines 130-159: the player when the ground line is tested.\<close>

definition beforeGroundCheck :: "keyboard \<Rightarrow> Platform list \<Rightarrow> Player \<Rightarrow> Player" where
  "beforeGroundCheck state platforms p =
     (let p = moveHorizontal state p;
          p = applyGravity p;
          p = p\<lparr>onGround := False\<rparr>
      in collidePlatforms p platforms)"

text \<open>
  Lines 130-172: the player at the jump test of line 174, with the screen value that
  the two checks before it have left.
\<close>

definition beforeJump :: "keyboard \<Rightarrow> Platform list \<Rightarrow> Player \<times> GameState \<Rightarrow> Player \<times> GameState" where
  "beforeJump state platforms pg =
     (case pg of (p, gameState) \<Rightarrow>
        winCheck (groundCheck (beforeGroundCheck state platforms p, gameState)))"

text \<open>
  The whole update. The player and the screen value are passed in and returned; the
  platforms are a read-only argument.
\<close>

definition update :: "keyboard \<Rightarrow> Platform list \<Rightarrow> Player \<times> GameState \<Rightarrow> Player \<times> GameState" where
  "update state platforms pg =
     (case beforeJump state platforms pg of (p, gameState) \<Rightarrow> (jumpCheck state p, gameState))"

section \<open>The carousel indices (lines 317, 322, 339, 344)\<close>

text \<open>
  The index is an \<open>int\<close> and \<open>size()\<close> is an unsigned \<open>size_t\<close> (64 bits on the
  usual targets). In \<open>(index - 1 + size) % size\<close> the \<open>int\<close> difference is converted
  to \<open>size_t\<close> (sign extension), the sum and the remainder are unsigned, and the
  assignment converts back to \<open>int\<close> (truncation).
\<close>

type_synonym c_int = "32 word"
type_synonym size_t = "64 word"

definition prevIndex :: "c_int \<Rightarrow> size_t \<Rightarrow> c_int" where
  "prevIndex i n = ucast ((scast (i - 1) + n) mod n)"

definition nextIndex :: "c_int \<Rightarrow> size_t \<Rightarrow> c_int" where
  "nextIndex i n = ucast (scast (i + 1) mod n)"

definition mapImagePaths :: "string list" where
  "mapImagePaths = [''images/nyc.bmp'', ''images/sydney.bmp'', ''images/london.bmp'',
     ''images/pisa.bmp'', ''images/moai.bmp'', ''images/pjatk.bmp'']"

definition skinImagePaths :: "string list" where
  "skinImagePaths = [''skins/dziekan.bmp'', ''skins/rektor.bmp'']"

text \<open>\<open>std::vector::size\<close>.\<close>

definition vector_size :: "'a list \<Rightarrow> size_t" where
  "vector_size xs = of_nat (length xs)"

section \<open>Buttons (lines 84-120, 216-226)\<close>

text \<open>A button is its label and rectangle; the hover flag only selects a colour.\<close>

datatype Button = Button string int int int int

fun containsPoint :: "Button \<Rightarrow> int \<Rightarrow> int \<Rightarrow> bool" where
  "containsPoint (Button label rx ry rw rh) px py =
     (px \<ge> rx \<and> px \<le> rx + rw \<and> py \<ge> ry \<and> py \<le> ry + rh)"

definition playButton :: Button where
  "playButton = Button ''PLAY'' (SCREEN_WIDTH div 2 - 100) (SCREEN_HEIGHT div 2 - 150) 200 50"
definition skinButton :: Button where
  "skinButton = Button ''SKINS'' (SCREEN_WIDTH div 2 - 225) (SCREEN_HEIGHT div 2 - 75) 200 50"
definition mapButton :: Button where
  "mapButton = Button ''MAP'' (SCREEN_WIDTH div 2 + 25) (SCREEN_HEIGHT div 2 - 75) 200 50"
definition exitButton :: Button where
  "exitButton = Button ''EXIT'' (SCREEN_WIDTH div 2 + 150) (SCREEN_HEIGHT div 2 + 200) 200 50"
definition selectButton :: Button where
  "selectButton = Button ''SELECT'' (SCREEN_WIDTH div 2 - 100) (SCREEN_HEIGHT div 2 + 125) 200 50"
definition backButton :: Button where
  "backButton = Button ''BACK'' (SCREEN_WIDTH div 2 - 100) (SCREEN_HEIGHT div 2 + 200) 200 50"
definition winBackButton :: Button where
  "winBackButton = Button ''BACK TO MENU'' (SCREEN_WIDTH div 2 - 100) (SCREEN_HEIGHT div 2 + 100) 200 50"
definition loseBackButton :: Button where
  "loseBackButton = Button ''TRY AGAIN'' (SCREEN_WIDTH div 2 - 100) (SCREEN_HEIGHT div 2 + 100) 200 50"
definition leftArrowButton :: Button where
  "leftArrowButton = Button ''<'' (SCREEN_WIDTH div 2 - 250) (SCREEN_HEIGHT div 2) 50 50"
definition rightArrowButton :: Button where
  "rightArrowButton = Button ''>'' (SCREEN_WIDTH div 2 + 200) (SCREEN_HEIGHT div 2) 50 50"

section \<open>Diagnostics and textures (lines 46-61)\<close>

text \<open>
  What the program writes to \<open>std::cerr\<close>, one value per diagnostic line; the
  library's own error text that the program appends is left out.
\<close>

datatype message =
  SDL_could_not_initialize
  | SDL_image_could_not_initialize
  | SDL_ttf_could_not_initialize
  | Window_could_not_be_created
  | Renderer_could_not_be_created
  | Unable_to_load_image string
  | Unable_to_create_texture string
  | Failed_to_load_WAV
  | Failed_to_open_audio_device

text \<open>
  The outcome of each fallible library call. \<open>IMG_Load_ok\<close> and
  \<open>SDL_CreateTextureFromSurface_ok\<close> say for which image files the two calls of
  \<open>loadTexture\<close> succeed.
\<close>

record Env =
  SDL_Init_ok :: bool
  IMG_Init_ok :: bool
  TTF_Init_ok :: bool
  SDL_CreateWindow_ok :: bool
  SDL_CreateRenderer_ok :: bool
  IMG_Load_ok :: "string \<Rightarrow> bool"
  SDL_CreateTextureFromSurface_ok :: "string \<Rightarrow> bool"
  SDL_LoadWAV_ok :: bool
  SDL_OpenAudioDevice_ok :: bool

text \<open>
  A texture handle: \<open>None\<close> is the null pointer, \<open>Some path\<close> the texture made
  from the image file at \<open>path\<close>.
\<close>

type_synonym SDL_Texture = "string option"

text \<open>
  \<open>loadTexture\<close> returns the handle and what it wrote to \<open>std::cerr\<close>. Either
  failure is reported and gives the null handle; nothing else happens.
\<close>

definition loadTexture :: "Env \<Rightarrow> string \<Rightarrow> SDL_Texture \<times> message list" where
  "loadTexture env path =
     (if \<not> IMG_Load_ok env path then (None, [Unable_to_load_image path])
      else if \<not> SDL_CreateTextureFromSurface_ok env path
      then (None, [Unable_to_create_texture path])
      else (Some path, []))"

text \<open>
  \<open>paths[index]\<close>. An index outside the vector is undefined behaviour in C++; the
  model gives the empty path there. The carousel keeps the index inside.
\<close>

definition vector_at :: "string list \<Rightarrow> c_int \<Rightarrow> string" where
  "vector_at xs i =
     (if 0 \<le> sint i \<and> sint i < int (length xs) then xs ! nat (sint i) else [])"

section \<open>The game loop (lines 206-492)\<close>

text \<open>
  The local variables of \<open>runGameLoop\<close>, and \<open>cerr\<close>, what the process has written
  to \<open>std::cerr\<close> so far. The renderer and the hover flags are only passed to drawing
  calls and are left out, as are the two lines written to \<open>std::cout\<close>.
  \<open>audioPaused\<close> is the pause state of the audio device, which opens paused.
\<close>

record Game =
  gameState :: GameState
  isRunning :: bool
  platforms :: "Platform list"
  currentMapIndex :: c_int
  currentSkinIndex :: c_int
  player :: Player
  audioPaused :: bool
  backgroundTextureMainMenu :: SDL_Texture
  backgroundTextureGameScreen :: SDL_Texture
  backgroundTextureMapScreen :: SDL_Texture
  mapThumbnailTexture :: SDL_Texture
  skinThumbnailTexture :: SDL_Texture
  playerTexture :: SDL_Texture
  cerr :: "message list"

text \<open>Lines 258, 365, 372, 387: the player a game starts with.\<close>

definition startPlayer :: Player where
  "startPlayer = new_Player 0 (GROUND_LEVEL - PLATFORM_HEIGHT - 50) 50 50 True"

text \<open>
  Lines 208-258 without the six calls of \<open>loadTexture\<close>: every local variable that
  does not depend on the environment, the texture handles still null.
\<close>

definition initGame :: Game where
  "initGame =
     \<lparr>gameState = MainMenu, isRunning = True,
      platforms =
        [Platform 0 (GROUND_LEVEL - PLATFORM_HEIGHT) PLATFORM_WIDTH PLATFORM_HEIGHT,
         Platform 200 (GROUND_LEVEL - 100) PLATFORM_WIDTH PLATFORM_HEIGHT,
         Platform 0 (GROUND_LEVEL - 160) PLATFORM_WIDTH PLATFORM_HEIGHT,
         Platform 200 (GROUND_LEVEL - 240) PLATFORM_WIDTH PLATFORM_HEIGHT,
         Platform 0 (GROUND_LEVEL - 320) PLATFORM_WIDTH PLATFORM_HEIGHT,
         Platform 200 (GROUND_LEVEL - 400) PLATFORM_WIDTH PLATFORM_HEIGHT,
         Platform 400 (GROUND_LEVEL - 480) PLATFORM_WIDTH PLATFORM_HEIGHT,
         Platform 600 (GROUND_LEVEL - 160) PLATFORM_WIDTH PLATFORM_HEIGHT],
      currentMapIndex = 0, currentSkinIndex = 0,
      player = startPlayer, audioPaused = True,
      backgroundTextureMainMenu = None, backgroundTextureGameScreen = None,
      backgroundTextureMapScreen = None, mapThumbnailTexture = None,
      skinThumbnailTexture = None, playerTexture = None, cerr = []\<rparr>"

text \<open>
  Lines 212-214, 254, 255 and 257: the six textures loaded before the first frame,
  in the order of the source.
\<close>

definition loadStartTextures :: "Env \<Rightarrow> Game \<Rightarrow> Game" where
  "loadStartTextures env g =
     (case loadTexture env ''images/london.bmp'' of (t1, m1) \<Rightarrow>
      case loadTexture env ''images/london.bmp'' of (t2, m2) \<Rightarrow>
      case loadTexture env ''images/london.bmp'' of (t3, m3) \<Rightarrow>
      case loadTexture env (vector_at mapImagePaths (currentMapIndex g)) of (t4, m4) \<Rightarrow>
      case loadTexture env (vector_at skinImagePaths (currentSkinIndex g)) of (t5, m5) \<Rightarrow>
      case loadTexture env (vector_at skinImagePaths (currentSkinIndex g)) of (t6, m6) \<Rightarrow>
        g\<lparr>backgroundTextureMainMenu := t1, backgroundTextureGameScreen := t2,
          backgroundTextureMapScreen := t3, mapThumbnailTexture := t4,
          skinThumbnailTexture := t5, playerTexture := t6,
          cerr := cerr g @ m1 @ m2 @ m3 @ m4 @ m5 @ m6\<rparr>)"

datatype keycode = SDLK_ESCAPE | SDLK_other

datatype SDL_Event =
  SDL_QUIT | SDL_MOUSEBUTTONDOWN int int | SDL_KEYDOWN keycode | SDL_MOUSEMOTION int int
  | SDL_other_event

text \<open>Lines 314-335 and 336-360: the arrow and select buttons of the two carousels.\<close>

definition skinArrow :: "Env \<Rightarrow> c_int \<Rightarrow> Game \<Rightarrow> Game" where
  "skinArrow env i g =
     (case loadTexture env (vector_at skinImagePaths i) of
        (t, m) \<Rightarrow> g\<lparr>currentSkinIndex := i, skinThumbnailTexture := t, cerr := cerr g @ m\<rparr>)"

definition skinSelect :: "Env \<Rightarrow> Game \<Rightarrow> Game" where
  "skinSelect env g =
     (case loadTexture env (vector_at skinImagePaths (currentSkinIndex g)) of
        (t, m) \<Rightarrow> g\<lparr>playerTexture := t, cerr := cerr g @ m\<rparr>)"

definition mapArrow :: "Env \<Rightarrow> c_int \<Rightarrow> Game \<Rightarrow> Game" where
  "mapArrow env i g =
     (case loadTexture env (vector_at mapImagePaths i) of
        (t, m) \<Rightarrow> g\<lparr>currentMapIndex := i, mapThumbnailTexture := t, cerr := cerr g @ m\<rparr>)"

definition mapSelect :: "Env \<Rightarrow> Game \<Rightarrow> Game" where
  "mapSelect env g =
     (let selectedMapPath = vector_at mapImagePaths (currentMapIndex g) in
      case loadTexture env selectedMapPath of (t1, m1) \<Rightarrow>
      case loadTexture env selectedMapPath of (t2, m2) \<Rightarrow>
      case loadTexture env selectedMapPath of (t3, m3) \<Rightarrow>
        g\<lparr>backgroundTextureMapScreen := t1, backgroundTextureMainMenu := t2,
          backgroundTextureGameScreen := t3, cerr := cerr g @ m1 @ m2 @ m3\<rparr>)"

text \<open>Lines 288-378: a mouse click, by active screen.\<close>

definition mouseButtonDown :: "Env \<Rightarrow> int \<Rightarrow> int \<Rightarrow> Game \<Rightarrow> Game" where
  "mouseButtonDown env mouseX mouseY g =
     (case gameState g of
        MainMenu \<Rightarrow>
          if containsPoint playButton mouseX mouseY
          then g\<lparr>gameState := GameScreen, audioPaused := False\<rparr>
          else if containsPoint skinButton mouseX mouseY then g\<lparr>gameState := SkinScreen\<rparr>
          else if containsPoint mapButton mouseX mouseY then g\<lparr>gameState := MapScreen\<rparr>
          else if containsPoint exitButton mouseX mouseY then g\<lparr>isRunning := False\<rparr>
          else g
      | SkinScreen \<Rightarrow>
          if containsPoint leftArrowButton mouseX mouseY
          then skinArrow env (prevIndex (currentSkinIndex g) (vector_size skinImagePaths)) g
          else if containsPoint rightArrowButton mouseX mouseY
          then skinArrow env (nextIndex (currentSkinIndex g) (vector_size skinImagePaths)) g
          else if containsPoint selectButton mouseX mouseY then skinSelect env g
          else if containsPoint backButton mouseX mouseY then g\<lparr>gameState := MainMenu\<rparr>
          else g
      | MapScreen \<Rightarrow>
          if containsPoint leftArrowButton mouseX mouseY
          then mapArrow env (prevIndex (currentMapIndex g) (vector_size mapImagePaths)) g
          else if containsPoint rightArrowButton mouseX mouseY
          then mapArrow env (nextIndex (currentMapIndex g) (vector_size mapImagePaths)) g
          else if containsPoint selectButton mouseX mouseY then mapSelect env g
          else if containsPoint backButton mouseX mouseY then g\<lparr>gameState := MainMenu\<rparr>
          else g
      | WinScreen \<Rightarrow>
          if containsPoint winBackButton mouseX mouseY
          then g\<lparr>gameState := MainMenu, player := startPlayer\<rparr>
          else g
      | LoseScreen \<Rightarrow>
          if containsPoint loseBackButton mouseX mouseY
          then g\<lparr>gameState := GameScreen, player := startPlayer\<rparr>
          else g
      | GameScreen \<Rightarrow> g)"

text \<open>Lines 284-425: one polled event. Mouse motion only sets hover flags.\<close>

fun handleEvent :: "Env \<Rightarrow> SDL_Event \<Rightarrow> Game \<Rightarrow> Game" where
  "handleEvent env SDL_QUIT g = g\<lparr>isRunning := False\<rparr>"
| "handleEvent env (SDL_MOUSEBUTTONDOWN mouseX mouseY) g = mouseButtonDown env mouseX mouseY g"
| "handleEvent env (SDL_KEYDOWN key) g =
     (if key = SDLK_ESCAPE
      then (if gameState g = GameScreen
            then g\<lparr>gameState := MainMenu, audioPaused := True, player := startPlayer\<rparr>
            else g)
      else g)"
| "handleEvent env (SDL_MOUSEMOTION mouseX mouseY) g = g"
| "handleEvent env SDL_other_event g = g"

text \<open>Lines 435-479: the drawing switch; only the game screen changes the state.\<close>

definition drawScreen :: "keyboard \<Rightarrow> Game \<Rightarrow> Game" where
  "drawScreen state g =
     (case gameState g of
        GameScreen \<Rightarrow>
          (case update state (platforms g) (player g, gameState g) of
             (p, s) \<Rightarrow> g\<lparr>player := p, gameState := s\<rparr>)
      | _ \<Rightarrow> g)"

text \<open>
  One pass of the outer loop: the events that \<open>SDL_PollEvent\<close> delivers, in order,
  then the keyboard state read by \<open>SDL_GetKeyboardState\<close>.
\<close>

type_synonym frame = "SDL_Event list \<times> keyboard"

definition frameStep :: "Env \<Rightarrow> frame \<Rightarrow> Game \<Rightarrow> Game" where
  "frameStep env f g =
     (case f of (events, state) \<Rightarrow> drawScreen state (fold (handleEvent env) events g))"

text \<open>
  \<open>while (isRunning)\<close> over the frames that the input provides. \<open>None\<close>: the input
  ends with the loop still running.
\<close>

fun gameLoop :: "Env \<Rightarrow> Game \<Rightarrow> frame list \<Rightarrow> Game option" where
  "gameLoop env g [] = (if isRunning g then None else Some g)"
| "gameLoop env g (f # fs) = (if isRunning g then gameLoop env (frameStep env f g) fs else Some g)"

text \<open>
  \<open>runGameLoop\<close> returns nothing; the model records which \<open>return\<close> was taken
  (lines 266, 277, or the end of the function) and the state it was taken in.
\<close>

datatype LoopReturn = WavLoadFailed Game | AudioDeviceFailed Game | LoopEnded Game

fun returnedGame :: "LoopReturn \<Rightarrow> Game" where
  "returnedGame (WavLoadFailed g) = g"
| "returnedGame (AudioDeviceFailed g) = g"
| "returnedGame (LoopEnded g) = g"

definition runGameLoop :: "Env \<Rightarrow> frame list \<Rightarrow> LoopReturn option" where
  "runGameLoop env frames =
     (let g = loadStartTextures env initGame in
      if \<not> SDL_LoadWAV_ok env
      then Some (WavLoadFailed (g\<lparr>cerr := cerr g @ [Failed_to_load_WAV]\<rparr>))
      else if \<not> SDL_OpenAudioDevice_ok env
      then Some (AudioDeviceFailed (g\<lparr>cerr := cerr g @ [Failed_to_open_audio_device]\<rparr>))
      else map_option LoopEnded (gameLoop env g frames))"

text \<open>
  Lines 494-538: \<open>main\<close>. Its result is the exit code of the process and what the
  process wrote to \<open>std::cerr\<close>.
\<close>

definition main :: "Env \<Rightarrow> frame list \<Rightarrow> (int \<times> message list) option" where
  "main env frames =
     (if \<not> SDL_Init_ok env then Some (1, [SDL_could_not_initialize])
      else if \<not> IMG_Init_ok env then Some (1, [SDL_image_could_not_initialize])
      else if \<not> TTF_Init_ok env then Some (1, [SDL_ttf_could_not_initialize])
      else if \<not> SDL_CreateWindow_ok env then Some (1, [Window_could_not_be_created])
      else if \<not> SDL_CreateRenderer_ok env then Some (1, [Renderer_could_not_be_created])
      else (case runGameLoop env frames of
              None \<Rightarrow> None
            | Some r \<Rightarrow> Some (0, cerr (returnedGame r))))"

text \<open>An environment in which every library call succeeds.\<close>

definition all_succeed :: Env where
  "all_succeed =
     \<lparr>SDL_Init_ok = True, IMG_Init_ok = True, TTF_Init_ok = True, SDL_CreateWindow_ok = True,
      SDL_CreateRenderer_ok = True, IMG_Load_ok = (\<lambda>path. True),
      SDL_CreateTextureFromSurface_ok = (\<lambda>path. True), SDL_LoadWAV_ok = True,
      SDL_OpenAudioDevice_ok = True\<rparr>"

text \<open>
  The state without its texture handles and without \<open>cerr\<close>: the part that the
  branches of the loop read.
\<close>

definition control :: "Game \<Rightarrow> Game" where
  "control g =
     g\<lparr>backgroundTextureMainMenu := None, backgroundTextureGameScreen := None,
       backgroundTextureMapScreen := None, mapThumbnailTexture := None,
       skinThumbnailTexture := None, playerTexture := None, cerr := []\<rparr>"

section \<open>Properties of the update\<close>

subsection \<open>Unfolding the composition\<close>

lemma update_pair:
  "update state ps (p, s) =
     (jumpCheck state (fst (beforeJump state ps (p, s))), snd (beforeJump state ps (p, s)))"
  by (simp add: update_def split: prod.splits)

lemma beforeJump_pair:
  "beforeJump state ps (p, s) = winCheck (groundCheck (beforeGroundCheck state ps p, s))"
  by (simp add: beforeJump_def)

lemma fst_winCheck: "fst (winCheck pg) = fst pg"
  by (simp add: winCheck_def split: prod.splits)

lemma collidePlatforms_cases:
  "collidePlatforms p ps = p \<or> (\<exists>pl \<in> set ps. hits p pl \<and> collidePlatforms p ps = landOn p pl)"
  by (induction ps) auto

lemma collidePlatforms_airborne:
  "\<not> onGround (collidePlatforms p ps) \<Longrightarrow> collidePlatforms p ps = p"
  using collidePlatforms_cases [of p ps] by (auto simp: landOn_def Let_def)

lemma collidePlatforms_no_hit:
  "\<forall>pl \<in> set ps. \<not> hits p pl \<Longrightarrow> collidePlatforms p ps = p"
  by (induction ps) auto

lemma collidePlatforms_first_hit:
  "\<forall>q \<in> set qs. \<not> hits p q \<Longrightarrow> hits p pl \<Longrightarrow> collidePlatforms p (qs @ pl # rest) = landOn p pl"
  by (induction qs) auto

lemma collidePlatforms_grounded:
  "\<not> onGround p \<Longrightarrow> onGround (collidePlatforms p ps) \<Longrightarrow> velY (collidePlatforms p ps) = 0"
  using collidePlatforms_cases [of p ps] by (auto simp: landOn_def Let_def)

lemma beforeGroundCheck_grounded:
  "onGround (beforeGroundCheck state ps p) \<Longrightarrow> velY (beforeGroundCheck state ps p) = 0"
  unfolding beforeGroundCheck_def Let_def by (rule collidePlatforms_grounded) simp_all

lemma groundCheck_grounded:
  "(onGround p \<Longrightarrow> velY p = 0) \<Longrightarrow> onGround (fst (groundCheck (p, s))) \<Longrightarrow> velY (fst (groundCheck (p, s))) = 0"
  by (auto simp: groundCheck_def Let_def split: if_splits)

lemma beforeJump_grounded:
  "onGround (fst (beforeJump state ps (p, s))) \<Longrightarrow> velY (fst (beforeJump state ps (p, s))) = 0"
  unfolding beforeJump_pair fst_winCheck
  by (rule groundCheck_grounded) (rule beforeGroundCheck_grounded)

subsection \<open>What each step leaves unchanged\<close>

lemma moveHorizontal_frame:
  "y (rect (moveHorizontal state p)) = y (rect p)"
  "w (rect (moveHorizontal state p)) = w (rect p)"
  "h (rect (moveHorizontal state p)) = h (rect p)"
  "speed (moveHorizontal state p) = speed p"
  "velY (moveHorizontal state p) = velY p"
  "onGround (moveHorizontal state p) = onGround p"
  by (simp_all add: moveHorizontal_def Let_def)

lemma applyGravity_frame:
  "x (rect (applyGravity p)) = x (rect p)"
  "w (rect (applyGravity p)) = w (rect p)"
  "h (rect (applyGravity p)) = h (rect p)"
  "speed (applyGravity p) = speed p"
  "onGround (applyGravity p) = onGround p"
  by (simp_all add: applyGravity_def Let_def)

lemma landOn_frame:
  "x (rect (landOn p pl)) = x (rect p)"
  "w (rect (landOn p pl)) = w (rect p)"
  "h (rect (landOn p pl)) = h (rect p)"
  "speed (landOn p pl) = speed p"
  by (simp_all add: landOn_def Let_def)

lemma collidePlatforms_frame:
  "x (rect (collidePlatforms p ps)) = x (rect p)"
  "w (rect (collidePlatforms p ps)) = w (rect p)"
  "h (rect (collidePlatforms p ps)) = h (rect p)"
  "speed (collidePlatforms p ps) = speed p"
  using collidePlatforms_cases [of p ps] by (auto simp: landOn_frame)

lemma beforeGroundCheck_frame:
  "x (rect (beforeGroundCheck state ps p)) = x (rect (moveHorizontal state p))"
  "w (rect (beforeGroundCheck state ps p)) = w (rect p)"
  "h (rect (beforeGroundCheck state ps p)) = h (rect p)"
  "speed (beforeGroundCheck state ps p) = speed p"
  by (simp_all add: beforeGroundCheck_def Let_def collidePlatforms_frame applyGravity_frame
      moveHorizontal_frame)

lemma groundCheck_frame:
  "x (rect (fst (groundCheck (p, s)))) = x (rect p)"
  "w (rect (fst (groundCheck (p, s)))) = w (rect p)"
  "h (rect (fst (groundCheck (p, s)))) = h (rect p)"
  "speed (fst (groundCheck (p, s))) = speed p"
  by (simp_all add: groundCheck_def Let_def)

lemma groundCheck_screen:
  "snd (groundCheck (p, s)) = (if GROUND_LEVEL \<le> bottomEdge (rect p) then LoseScreen else s)"
  by (simp add: groundCheck_def Let_def)

lemma winCheck_screen:
  "snd (winCheck (p, s)) = (if SCREEN_WIDTH \<le> rightEdge (rect p) then WinScreen else s)"
  by (simp add: winCheck_def)

lemma jumpCheck_frame:
  "rect (jumpCheck state p) = rect p"
  "speed (jumpCheck state p) = speed p"
  by (simp_all add: jumpCheck_def)

lemma beforeJump_frame:
  "x (rect (fst (beforeJump state ps (p, s)))) = x (rect (moveHorizontal state p))"
  "w (rect (fst (beforeJump state ps (p, s)))) = w (rect p)"
  "h (rect (fst (beforeJump state ps (p, s)))) = h (rect p)"
  "speed (fst (beforeJump state ps (p, s))) = speed p"
  by (simp_all add: beforeJump_pair fst_winCheck groundCheck_frame beforeGroundCheck_frame)

lemma update_frame:
  "x (rect (fst (update state ps (p, s)))) = x (rect (moveHorizontal state p))"
  "w (rect (fst (update state ps (p, s)))) = w (rect p)"
  "h (rect (fst (update state ps (p, s)))) = h (rect p)"
  "speed (fst (update state ps (p, s))) = speed p"
  by (simp_all add: update_pair jumpCheck_frame beforeJump_frame)

lemma beforeJump_screen:
  "snd (beforeJump state ps (p, s)) =
     (if SCREEN_WIDTH \<le> rightEdge (rect (moveHorizontal state p)) then WinScreen
      else if GROUND_LEVEL \<le> bottomEdge (rect (beforeGroundCheck state ps p)) then LoseScreen
      else s)"
  by (simp add: beforeJump_pair winCheck_def groundCheck_def Let_def beforeGroundCheck_frame
      moveHorizontal_frame)

lemma update_screen:
  "snd (update state ps (p, s)) = snd (beforeJump state ps (p, s))"
  by (simp add: update_pair)

subsection \<open>The constants, and the airborne player\<close>

lemma JUMP_SPEED_value: "JUMP_SPEED = - 6"
  by code_simp

lemma GRAVITY_value: "GRAVITY = 13421773 / 67108864"
  by code_simp

lemma groundCheck_airborne:
  "\<not> onGround (fst (groundCheck (p, s))) \<Longrightarrow> fst (groundCheck (p, s)) = p"
  by (auto simp: groundCheck_def Let_def split: if_splits)

lemma beforeGroundCheck_airborne:
  "\<not> onGround (beforeGroundCheck state ps p) \<Longrightarrow>
   beforeGroundCheck state ps p = (applyGravity (moveHorizontal state p))\<lparr>onGround := False\<rparr>"
  unfolding beforeGroundCheck_def Let_def by (rule collidePlatforms_airborne)

lemma beforeJump_airborne:
  assumes "\<not> onGround (fst (beforeJump state ps (p, s)))"
  shows "fst (beforeJump state ps (p, s)) = (applyGravity (moveHorizontal state p))\<lparr>onGround := False\<rparr>"
proof -
  from assms have g: "\<not> onGround (fst (groundCheck (beforeGroundCheck state ps p, s)))"
    by (simp add: beforeJump_pair fst_winCheck)
  then have e: "fst (groundCheck (beforeGroundCheck state ps p, s)) = beforeGroundCheck state ps p"
    by (rule groundCheck_airborne)
  with g have na: "\<not> onGround (beforeGroundCheck state ps p)" by simp
  have "fst (beforeJump state ps (p, s)) = beforeGroundCheck state ps p"
    by (simp add: beforeJump_pair fst_winCheck e)
  also have "\<dots> = (applyGravity (moveHorizontal state p))\<lparr>onGround := False\<rparr>"
    by (rule beforeGroundCheck_airborne [OF na])
  finally show ?thesis .
qed

lemma velY_applyGravity: "velY (applyGravity p) = fadd (velY p) GRAVITY"
  by (simp add: applyGravity_def Let_def)

lemma y_applyGravity:
  "y (rect (applyGravity p)) = y (rect p) + float_to_int (fadd (velY p) GRAVITY)"
  by (simp add: applyGravity_def Let_def)

lemma x_moveHorizontal:
  "x (rect (moveHorizontal state p)) =
     (let moved = x (rect p) + speed p *
            ((if state SDL_SCANCODE_D \<noteq> 0 then 1 else 0) - (if state SDL_SCANCODE_A \<noteq> 0 then 1 else 0));
          low = (if moved < 0 then 0 else moved)
      in if low + w (rect p) > SCREEN_WIDTH then SCREEN_WIDTH - w (rect p) else low)"
  by (simp add: moveHorizontal_def Let_def)

lemma float_to_int_floor: "0 \<le> v \<Longrightarrow> float_to_int v = \<lfloor>v\<rfloor>"
  by (simp add: float_to_int_def)

lemma float_to_int_ceiling: "v < 0 \<Longrightarrow> float_to_int v = \<lceil>v\<rceil>"
  by (simp add: float_to_int_def)

subsection \<open>The ground line\<close>

lemma hits_rect: "rect p = rect q \<Longrightarrow> hits p pl = hits q pl"
  by (simp add: hits_def)

lemma groundCheck_snap:
  assumes "GROUND_LEVEL \<le> bottomEdge (rect q)"
  shows "bottomEdge (rect (fst (groundCheck (q, s)))) = GROUND_LEVEL"
    and "onGround (fst (groundCheck (q, s)))"
    and "velY (fst (groundCheck (q, s))) = 0"
    and "snd (groundCheck (q, s)) = LoseScreen"
  using assms by (simp_all add: groundCheck_def Let_def)

lemma update_on_ground_line:
  assumes "GROUND_LEVEL \<le> bottomEdge (rect (beforeGroundCheck state ps p))"
  shows "bottomEdge (rect (fst (update state ps (p, s)))) = GROUND_LEVEL"
    and "state SDL_SCANCODE_W = 0 \<Longrightarrow> onGround (fst (update state ps (p, s)))"
    and "state SDL_SCANCODE_W = 0 \<Longrightarrow> velY (fst (update state ps (p, s))) = 0"
    and "state SDL_SCANCODE_W \<noteq> 0 \<Longrightarrow> \<not> onGround (fst (update state ps (p, s)))"
    and "state SDL_SCANCODE_W \<noteq> 0 \<Longrightarrow> velY (fst (update state ps (p, s))) = JUMP_SPEED"
  using groundCheck_snap [OF assms, of s]
  by (simp_all add: update_pair beforeJump_pair fst_winCheck jumpCheck_def)

subsection \<open>Landing on a platform\<close>

lemma landOn_result:
  "bottomEdge (rect (landOn p pl)) = y (getRect pl)"
  "onGround (landOn p pl)"
  "velY (landOn p pl) = 0"
  by (simp_all add: landOn_def Let_def)

lemma collidePlatforms_level:
  assumes "pl \<in> set ps" and "hits p pl"
    and "\<forall>q \<in> set ps. hits p q \<longrightarrow> y (getRect q) = y (getRect pl)"
  shows "bottomEdge (rect (collidePlatforms p ps)) = y (getRect pl)"
    and "onGround (collidePlatforms p ps)"
    and "velY (collidePlatforms p ps) = 0"
proof -
  have "\<exists>q \<in> set ps. hits p q \<and> collidePlatforms p ps = landOn p q"
    using assms(1,2) by (induction ps) auto
  then obtain q where q: "q \<in> set ps" "hits p q" "collidePlatforms p ps = landOn p q"
    by blast
  with assms(3) have "y (getRect q) = y (getRect pl)" by blast
  with q(3) show "bottomEdge (rect (collidePlatforms p ps)) = y (getRect pl)"
    and "onGround (collidePlatforms p ps)" and "velY (collidePlatforms p ps) = 0"
    by (simp_all add: landOn_result)
qed

lemma platforms_bands:
  assumes "pl \<in> set (platforms initGame)" and "q \<in> set (platforms initGame)"
    and "hits p pl" and "hits p q"
  shows "y (getRect q) = y (getRect pl)"
  using assms
  by (auto simp: initGame_def hits_def Let_def GROUND_LEVEL_def SCREEN_HEIGHT_def
      PLATFORM_HEIGHT_def PLATFORM_WIDTH_def)

subsection \<open>The ground test, from the start of the frame\<close>

lemma bottom_update:
  "bottomEdge (rect (fst (update state ps (p, s)))) =
     min GROUND_LEVEL (bottomEdge (rect (beforeGroundCheck state ps p)))"
  by (simp add: update_pair jumpCheck_frame beforeJump_pair fst_winCheck groundCheck_def Let_def)

lemma collidePlatforms_hit_or_not:
  "(\<forall>pl \<in> set ps. \<not> hits p pl) \<and> collidePlatforms p ps = p \<or>
   (\<exists>pl \<in> set ps. hits p pl \<and> collidePlatforms p ps = landOn p pl)"
  by (induction ps) auto

lemma beforeGroundCheck_cases:
  "(\<forall>pl \<in> set ps. \<not> hits (applyGravity (moveHorizontal state p)) pl) \<and>
     beforeGroundCheck state ps p = (applyGravity (moveHorizontal state p))\<lparr>onGround := False\<rparr> \<or>
   (\<exists>pl \<in> set ps. hits (applyGravity (moveHorizontal state p)) pl \<and>
     beforeGroundCheck state ps p =
       landOn ((applyGravity (moveHorizontal state p))\<lparr>onGround := False\<rparr>) pl)"
proof -
  have "hits ((applyGravity (moveHorizontal state p))\<lparr>onGround := False\<rparr>) pl =
      hits (applyGravity (moveHorizontal state p)) pl" for pl
    by (rule hits_rect) simp
  then show ?thesis
    using collidePlatforms_hit_or_not
      [of ps "(applyGravity (moveHorizontal state p))\<lparr>onGround := False\<rparr>"]
    by (simp add: beforeGroundCheck_def Let_def)
qed

lemma bottom_after_gravity:
  "bottomEdge (rect (applyGravity (moveHorizontal state p))) =
     bottomEdge (rect p) + float_to_int (fadd (velY p) GRAVITY)"
  by (simp add: y_applyGravity applyGravity_frame moveHorizontal_frame)

lemma grounded_at_ground_check:
  assumes "GROUND_LEVEL \<le> bottomEdge (rect p)"
    and "0 \<le> float_to_int (fadd (velY p) GRAVITY)"
  shows "GROUND_LEVEL \<le> bottomEdge (rect (beforeGroundCheck state ps p)) \<or>
         onGround (beforeGroundCheck state ps p) \<and> velY (beforeGroundCheck state ps p) = 0"
  using beforeGroundCheck_cases [of ps state p] assms
  by (auto simp: bottom_after_gravity landOn_result)

lemma grounded_before_jump:
  assumes "GROUND_LEVEL \<le> bottomEdge (rect (beforeGroundCheck state ps p)) \<or>
         onGround (beforeGroundCheck state ps p) \<and> velY (beforeGroundCheck state ps p) = 0"
  shows "onGround (fst (beforeJump state ps (p, s)))"
    and "velY (fst (beforeJump state ps (p, s))) = 0"
  using assms by (auto simp: beforeJump_pair fst_winCheck groundCheck_def Let_def)

lemma reaches_ground_line:
  assumes "GROUND_LEVEL \<le> bottomEdge (rect p)"
    and "0 \<le> float_to_int (fadd (velY p) GRAVITY)"
    and "\<forall>pl \<in> set ps. hits (applyGravity (moveHorizontal state p)) pl \<longrightarrow>
           GROUND_LEVEL \<le> y (getRect pl)"
  shows "GROUND_LEVEL \<le> bottomEdge (rect (beforeGroundCheck state ps p))"
  using beforeGroundCheck_cases [of ps state p] assms
  by (auto simp: bottom_after_gravity landOn_result)

lemma update_jump_cases:
  assumes "onGround (fst (beforeJump state ps (p, s)))"
    and "velY (fst (beforeJump state ps (p, s))) = 0"
  shows "state SDL_SCANCODE_W = 0 \<longrightarrow>
           onGround (fst (update state ps (p, s))) \<and> velY (fst (update state ps (p, s))) = 0"
    and "state SDL_SCANCODE_W \<noteq> 0 \<longrightarrow>
           \<not> onGround (fst (update state ps (p, s))) \<and>
           velY (fst (update state ps (p, s))) = JUMP_SPEED"
  using assms by (simp_all add: update_pair jumpCheck_def)

lemma update_screen_cases:
  "snd (update state ps (p, s)) =
     (if SCREEN_WIDTH \<le> rightEdge (rect (fst (update state ps (p, s)))) then WinScreen
      else if GROUND_LEVEL \<le> bottomEdge (rect (beforeGroundCheck state ps p)) then LoseScreen
      else s)"
  by (simp add: update_screen beforeJump_screen update_frame moveHorizontal_frame)

section \<open>Properties of the carousel\<close>

lemma carousel_concrete:
  "prevIndex 0 (vector_size mapImagePaths) = 5"
  "nextIndex 5 (vector_size mapImagePaths) = 0"
  "nextIndex 0 (vector_size mapImagePaths) = 1"
  by (simp_all add: prevIndex_def nextIndex_def vector_size_def mapImagePaths_def)

lemma sint_ucast_small:
  fixes v :: size_t
  assumes "uint v < 2 ^ 31"
  shows "sint (ucast v :: c_int) = uint v"
proof -
  have "- (2 ^ 31) \<le> uint v"
    by (rule order_trans [of _ 0]) simp_all
  with assms show ?thesis
    by (simp add: signed_ucast_eq signed_take_bit_int_eq_self)
qed

lemma uint_scast_plus:
  fixes a :: c_int and n :: size_t
  assumes "0 \<le> sint a + uint n" and "sint a + uint n < 2 ^ 64"
  shows "uint (scast a + n) = sint a + uint n"
proof -
  have "(word_of_int (sint a + uint n) :: size_t) = word_of_int (sint a) + word_of_int (uint n)"
    by (simp only: of_int_add)
  also have "(word_of_int (sint a) :: size_t) = scast a"
    by (simp only: scast_eq)
  also have "(word_of_int (uint n) :: size_t) = n"
    by (rule word_of_int_uint)
  finally have "uint (scast a + n) = uint (word_of_int (sint a + uint n) :: size_t)"
    by (rule arg_cong [OF sym])
  then have "uint (scast a + n) = take_bit 64 (sint a + uint n)"
    by (simp only: uint_word_of_int_eq) simp
  with assms show ?thesis
    by (simp add: take_bit_int_eq_self)
qed

lemma sint_minus_one:
  fixes i :: c_int
  assumes "0 \<le> sint i"
  shows "sint (i - 1) = sint i - 1"
proof -
  have "sint i < 2 ^ 31"
    using sint_lt [of i] by simp
  with assms show ?thesis
    by (simp add: sint_word_ariths signed_take_bit_int_eq_self)
qed

lemma sint_plus_one:
  fixes i :: c_int
  assumes "0 \<le> sint i" and "sint i + 1 < 2 ^ 31"
  shows "sint (i + 1) = sint i + 1"
  using assms by (simp add: sint_word_ariths signed_take_bit_int_eq_self)

lemma prevIndex_sint:
  fixes i :: c_int and n :: size_t
  assumes "0 \<le> sint i" and "sint i < uint n" and "uint n < 2 ^ 31"
  shows "sint (prevIndex i n) = (sint i - 1) mod uint n"
proof -
  have "uint (scast (i - 1) + n) = sint (i - 1) + uint n"
    by (rule uint_scast_plus) (use assms in \<open>simp_all add: sint_minus_one\<close>)
  then have u: "uint ((scast (i - 1) + n) mod n) = (sint i - 1) mod uint n"
    using assms by (simp add: uint_mod sint_minus_one)
  have "(sint i - 1) mod uint n < uint n"
    using assms by (intro pos_mod_bound) simp
  with u assms(3) have "uint ((scast (i - 1) + n) mod n) < 2 ^ 31"
    by simp
  then show ?thesis
    unfolding prevIndex_def using u by (simp only: sint_ucast_small)
qed

lemma nextIndex_sint:
  fixes i :: c_int and n :: size_t
  assumes "0 \<le> sint i" and "sint i < uint n" and "uint n < 2 ^ 31"
  shows "sint (nextIndex i n) = (sint i + 1) mod uint n"
proof -
  have s: "sint (i + 1) = sint i + 1"
    by (rule sint_plus_one) (use assms in simp_all)
  have "uint (scast (i + 1) + (0 :: size_t)) = sint (i + 1) + uint (0 :: size_t)"
    by (rule uint_scast_plus) (use assms s in simp_all)
  then have u: "uint (scast (i + 1) mod n) = (sint i + 1) mod uint n"
    using s by (simp add: uint_mod)
  have "(sint i + 1) mod uint n < uint n"
    using assms by (intro pos_mod_bound) simp
  with u assms(3) have "uint (scast (i + 1) mod n :: size_t) < 2 ^ 31"
    by simp
  then show ?thesis
    unfolding nextIndex_def using u by (simp only: sint_ucast_small)
qed

lemma arrows_apart:
  "containsPoint rightArrowButton mx my \<Longrightarrow> \<not> containsPoint leftArrowButton mx my"
  by (simp add: rightArrowButton_def leftArrowButton_def SCREEN_WIDTH_def SCREEN_HEIGHT_def)

lemma map_screen_arrows:
  assumes "gameState g = MapScreen"
  shows "containsPoint leftArrowButton mx my \<Longrightarrow>
           currentMapIndex (handleEvent env (SDL_MOUSEBUTTONDOWN mx my) g) =
             prevIndex (currentMapIndex g) (vector_size mapImagePaths)"
    and "containsPoint rightArrowButton mx my \<Longrightarrow>
           currentMapIndex (handleEvent env (SDL_MOUSEBUTTONDOWN mx my) g) =
             nextIndex (currentMapIndex g) (vector_size mapImagePaths)"
  using assms by (simp_all add: mouseButtonDown_def arrows_apart mapArrow_def split: prod.splits)

section \<open>Properties of the game loop\<close>

text \<open>No branch of the loop reads a texture handle or \<open>cerr\<close>.\<close>

lemma control_fields:
  "gameState (control g) = gameState g"
  "isRunning (control g) = isRunning g"
  "platforms (control g) = platforms g"
  "currentMapIndex (control g) = currentMapIndex g"
  "currentSkinIndex (control g) = currentSkinIndex g"
  "player (control g) = player g"
  "audioPaused (control g) = audioPaused g"
  by (simp_all add: control_def)

lemma control_loads:
  "control (skinArrow env i g) = (control g)\<lparr>currentSkinIndex := i\<rparr>"
  "control (mapArrow env i g) = (control g)\<lparr>currentMapIndex := i\<rparr>"
  "control (skinSelect env g) = control g"
  "control (mapSelect env g) = control g"
  "control (loadStartTextures env g) = control g"
  by (simp_all add: control_def skinArrow_def mapArrow_def skinSelect_def mapSelect_def
      loadStartTextures_def Let_def split: prod.splits)

lemma control_idem: "control (control g) = control g"
  by (simp add: control_def)

lemma control_updates:
  "control (g\<lparr>gameState := s\<rparr>) = (control g)\<lparr>gameState := s\<rparr>"
  "control (g\<lparr>isRunning := b\<rparr>) = (control g)\<lparr>isRunning := b\<rparr>"
  "control (g\<lparr>audioPaused := b\<rparr>) = (control g)\<lparr>audioPaused := b\<rparr>"
  "control (g\<lparr>player := p\<rparr>) = (control g)\<lparr>player := p\<rparr>"
  "control (g\<lparr>currentSkinIndex := i\<rparr>) = (control g)\<lparr>currentSkinIndex := i\<rparr>"
  "control (g\<lparr>currentMapIndex := i\<rparr>) = (control g)\<lparr>currentMapIndex := i\<rparr>"
  by (simp_all add: control_def)

lemma control_mouseButtonDown:
  "control (mouseButtonDown env mx my g) = control (mouseButtonDown env' mx my (control g))"
  by (cases "gameState g")
    (simp_all add: mouseButtonDown_def control_fields control_loads control_updates control_idem)

lemma control_handleEvent:
  "control (handleEvent env e g) = control (handleEvent env' e (control g))"
  by (cases e) (simp_all add: control_mouseButtonDown control_fields control_updates control_idem)

lemma control_handleEvent_cong:
  assumes "control g = control g'"
  shows "control (handleEvent env e g) = control (handleEvent env' e g')"
proof -
  have "control (handleEvent env e g) = control (handleEvent env' e (control g))"
    by (rule control_handleEvent)
  also have "\<dots> = control (handleEvent env' e (control g'))"
    by (simp only: assms)
  also have "\<dots> = control (handleEvent env' e g')"
    by (rule control_handleEvent [symmetric])
  finally show ?thesis .
qed

lemma control_fold:
  "control g = control g' \<Longrightarrow>
   control (fold (handleEvent env) es g) = control (fold (handleEvent env') es g')"
proof (induction es arbitrary: g g')
  case Nil
  then show ?case by simp
next
  case (Cons e es)
  from Cons.prems have "control (handleEvent env e g) = control (handleEvent env' e g')"
    by (rule control_handleEvent_cong)
  then show ?case
    by (simp add: Cons.IH)
qed

lemma control_drawScreen: "control (drawScreen state g) = drawScreen state (control g)"
  by (simp add: drawScreen_def control_fields control_updates split: GameState.splits prod.splits)

lemma control_frameStep:
  assumes "control g = control g'"
  shows "control (frameStep env f g) = control (frameStep env' f g')"
proof -
  obtain es state where f: "f = (es, state)" by (cases f)
  have "control (fold (handleEvent env) es g) = control (fold (handleEvent env') es g')"
    using assms by (rule control_fold)
  then show ?thesis
    by (simp add: frameStep_def f control_drawScreen)
qed

lemma control_isRunning: "control g = control g' \<Longrightarrow> isRunning g = isRunning g'"
  using control_fields(2) [of g] control_fields(2) [of g'] by simp

lemma control_gameLoop:
  "control g = control g' \<Longrightarrow>
   map_option control (gameLoop env g fs) = map_option control (gameLoop env' g' fs)"
proof (induction fs arbitrary: g g')
  case Nil
  then show ?case
    using control_isRunning [OF Nil.prems] by simp
next
  case (Cons f fs)
  have r: "isRunning g = isRunning g'"
    using Cons.prems by (rule control_isRunning)
  have "control (frameStep env f g) = control (frameStep env' f g')"
    using Cons.prems by (rule control_frameStep)
  then have "map_option control (gameLoop env (frameStep env f g) fs) =
      map_option control (gameLoop env' (frameStep env' f g') fs)"
    by (rule Cons.IH)
  then show ?case
    using r Cons.prems by simp
qed

lemma exit_code_run:
  "map_option fst (main env frames) =
     (if \<not> SDL_Init_ok env \<or> \<not> IMG_Init_ok env \<or> \<not> TTF_Init_ok env \<or>
         \<not> SDL_CreateWindow_ok env \<or> \<not> SDL_CreateRenderer_ok env then Some 1
      else if \<not> SDL_LoadWAV_ok env \<or> \<not> SDL_OpenAudioDevice_ok env then Some 0
      else map_option (\<lambda>g. 0) (gameLoop env (loadStartTextures env initGame) frames))"
  by (simp add: main_def runGameLoop_def Let_def split: option.splits)

lemma gameLoop_images:
  "map_option (\<lambda>g. 0 :: int) (gameLoop env (loadStartTextures env initGame) frames) =
   map_option (\<lambda>g. 0) (gameLoop env' (loadStartTextures env' initGame) frames)"
proof -
  have "control (loadStartTextures env initGame) = control (loadStartTextures env' initGame)"
    by (simp add: control_loads)
  then have "map_option control (gameLoop env (loadStartTextures env initGame) frames) =
      map_option control (gameLoop env' (loadStartTextures env' initGame) frames)"
    by (rule control_gameLoop)
  then have "map_option (\<lambda>g. 0 :: int) (map_option control (gameLoop env (loadStartTextures env initGame) frames)) =
      map_option (\<lambda>g. 0) (map_option control (gameLoop env' (loadStartTextures env' initGame) frames))"
    by (rule arg_cong)
  then show ?thesis
    by (simp add: option.map_comp comp_def)
qed


lemma loadTexture_failures:
  "\<not> IMG_Load_ok env path \<Longrightarrow> loadTexture env path = (None, [Unable_to_load_image path])"
  "IMG_Load_ok env path \<Longrightarrow> \<not> SDL_CreateTextureFromSurface_ok env path \<Longrightarrow>
     loadTexture env path = (None, [Unable_to_create_texture path])"
  by (simp_all add: loadTexture_def)

section \<open>The claims\<close>

text \<open>
  C9. After every update, a grounded player has vertical velocity zero: the platform
  snap and the ground-line snap both zero the velocity when they set the flag, and
  the jump, which sets a nonzero velocity, clears the flag.
\<close>

theorem grounded_implies_zero_velocity:
  "onGround (fst (update state ps (p, s))) \<longrightarrow> velY (fst (update state ps (p, s))) = 0"
  using beforeJump_grounded [of state ps p s]
  by (auto simp: update_pair jumpCheck_def)

theorem grounded_implies_zero_velocity_witness:
  "onGround (fst (update (\<lambda>k. 0) (platforms initGame) (startPlayer, GameScreen))) \<and>
   velY (fst (update (\<lambda>k. 0) (platforms initGame) (startPlayer, GameScreen))) = 0"
proof -
  have g: "onGround (fst (update (\<lambda>k. 0) (platforms initGame) (startPlayer, GameScreen)))"
    by code_simp
  with grounded_implies_zero_velocity [of "\<lambda>k. 0" "platforms initGame" startPlayer GameScreen]
  show ?thesis by blast
qed

text \<open>
  C10. The update leaves the player's width and height (and speed) as they were, and
  changes the screen value, if at all, to \<open>WinScreen\<close> or \<open>LoseScreen\<close>. The platform
  list is a read-only argument of the update; the frame that calls it writes back
  the player and the screen value and nothing else.
\<close>

theorem update_frame_condition:
  "w (rect (fst (update state ps (p, s)))) = w (rect p) \<and>
   h (rect (fst (update state ps (p, s)))) = h (rect p) \<and>
   speed (fst (update state ps (p, s))) = speed p \<and>
   (snd (update state ps (p, s)) = s \<or> snd (update state ps (p, s)) = WinScreen \<or>
    snd (update state ps (p, s)) = LoseScreen) \<and>
   platforms (drawScreen state g) = platforms g \<and>
   drawScreen state g =
     g\<lparr>player := player (drawScreen state g), gameState := gameState (drawScreen state g)\<rparr>"
proof -
  have "platforms (drawScreen state g) = platforms g"
    by (simp add: drawScreen_def split: GameState.splits prod.splits)
  moreover have "drawScreen state g =
     g\<lparr>player := player (drawScreen state g), gameState := gameState (drawScreen state g)\<rparr>"
    by (simp add: drawScreen_def split: GameState.splits prod.splits)
  ultimately show ?thesis
    by (simp add: update_frame update_screen beforeJump_screen)
qed

theorem update_frame_condition_witness:
  "w (rect (fst (update (\<lambda>k. 0) (platforms initGame) (new_Player 750 500 50 50 False, GameScreen)))) = 50 \<and>
   h (rect (fst (update (\<lambda>k. 0) (platforms initGame) (new_Player 750 500 50 50 False, GameScreen)))) = 50 \<and>
   platforms (drawScreen (\<lambda>k. 0) initGame) = platforms initGame"
  using update_frame_condition [of "\<lambda>k. 0" "platforms initGame" "new_Player 750 500 50 50 False"
      GameScreen initGame]
  by (simp add: new_Player_def)

text \<open>
  C4. A player whose \<open>x\<close> lies in \<open>[0, SCREEN_WIDTH - w]\<close> keeps it there through
  one update, whatever keys are held: the horizontal step adds
  \<open>speed * (right - left)\<close> and clamps to that interval, and no later step writes
  \<open>x\<close>.
\<close>

theorem x_stays_on_screen:
  assumes "0 \<le> x (rect p)" and "x (rect p) \<le> SCREEN_WIDTH - w (rect p)"
  shows "0 \<le> x (rect (fst (update state ps (p, s)))) \<and>
         x (rect (fst (update state ps (p, s)))) \<le> SCREEN_WIDTH - w (rect (fst (update state ps (p, s)))) \<and>
         x (rect (fst (update state ps (p, s)))) =
           min (SCREEN_WIDTH - w (rect p))
             (max 0 (x (rect p) + speed p *
                ((if state SDL_SCANCODE_D \<noteq> 0 then 1 else 0) - (if state SDL_SCANCODE_A \<noteq> 0 then 1 else 0)))) \<and>
         x (rect (fst (update state ps (p, s)))) = x (rect (moveHorizontal state p))"
  using assms by (simp add: update_frame x_moveHorizontal Let_def)

theorem x_stays_on_screen_witness:
  "0 \<le> x (rect (new_Player 749 340 50 50 True)) \<and>
   x (rect (new_Player 749 340 50 50 True)) \<le> SCREEN_WIDTH - w (rect (new_Player 749 340 50 50 True)) \<and>
   x (rect (fst (update (\<lambda>k. if k = SDL_SCANCODE_D then 1 else 0) (platforms initGame)
      (new_Player 749 340 50 50 True, GameScreen)))) = 750"
  using x_stays_on_screen [of "new_Player 749 340 50 50 True" "\<lambda>k. if k = SDL_SCANCODE_D then 1 else 0"
      "platforms initGame" GameScreen]
  by (simp add: new_Player_def SCREEN_WIDTH_def)

text \<open>
  C6. The jump changes the velocity only for a player that is grounded at the jump
  test. For a player airborne there, the update leaves what the earlier steps
  produced, that is the old velocity plus gravity, whether or not the jump key is
  held; for a grounded player with the key held the velocity becomes
  \<open>JUMP_SPEED\<close>, which is \<open>-6\<close>, and the flag is cleared.
\<close>

theorem jump_only_when_grounded:
  "(\<not> onGround (fst (beforeJump state ps (p, s))) \<longrightarrow>
      fst (update state ps (p, s)) = fst (beforeJump state ps (p, s)) \<and>
      velY (fst (update state ps (p, s))) = fadd (velY p) GRAVITY) \<and>
   (onGround (fst (beforeJump state ps (p, s))) \<and> state SDL_SCANCODE_W \<noteq> 0 \<longrightarrow>
      velY (fst (update state ps (p, s))) = JUMP_SPEED \<and>
      \<not> onGround (fst (update state ps (p, s)))) \<and>
   (state SDL_SCANCODE_W = 0 \<longrightarrow>
      fst (update state ps (p, s)) = fst (beforeJump state ps (p, s))) \<and>
   JUMP_SPEED = - 6"
proof -
  have "velY (fst (beforeJump state ps (p, s))) = fadd (velY p) GRAVITY"
    if "\<not> onGround (fst (beforeJump state ps (p, s)))"
    using beforeJump_airborne [OF that]
    by (simp add: velY_applyGravity moveHorizontal_frame)
  then show ?thesis
    by (simp add: update_pair jumpCheck_def JUMP_SPEED_value)
qed

theorem jump_only_when_grounded_witness:
  "\<not> onGround (fst (beforeJump (\<lambda>k. 1) (platforms initGame) (new_Player 0 300 50 50 False, GameScreen))) \<and>
   velY (fst (update (\<lambda>k. 1) (platforms initGame) (new_Player 0 300 50 50 False, GameScreen))) =
     fadd (velY (new_Player 0 300 50 50 False)) GRAVITY \<and>
   onGround (fst (beforeJump (\<lambda>k. 1) (platforms initGame) (startPlayer, GameScreen))) \<and>
   velY (fst (update (\<lambda>k. 1) (platforms initGame) (startPlayer, GameScreen))) = JUMP_SPEED"
proof -
  have a: "\<not> onGround (fst (beforeJump (\<lambda>k. 1) (platforms initGame) (new_Player 0 300 50 50 False, GameScreen)))"
    by code_simp
  have g: "onGround (fst (beforeJump (\<lambda>k. 1) (platforms initGame) (startPlayer, GameScreen)))"
    by code_simp
  have k: "(1 :: 8 word) \<noteq> 0"
    by simp
  show ?thesis
    using a g k
      jump_only_when_grounded [of "\<lambda>k. 1" "platforms initGame" "new_Player 0 300 50 50 False" GameScreen]
      jump_only_when_grounded [of "\<lambda>k. 1" "platforms initGame" startPlayer GameScreen]
    by blast
qed

text \<open>
  C5, as the code has it. The vertical step adds \<open>GRAVITY\<close> (the binary32 number
  nearest to 0.2) to the velocity in single precision and then moves \<open>y\<close> by the
  velocity with its fractional part discarded. That is the floor for a velocity that
  is not negative and the ceiling for a negative one: the conversion rounds
  toward zero, not toward minus infinity. For a player still airborne at the jump
  test these are the velocity and the \<open>y\<close> that the update returns.
\<close>

theorem gravity_then_truncated_step:
  "velY (applyGravity p) = fadd (velY p) GRAVITY \<and>
   y (rect (applyGravity p)) = y (rect p) + float_to_int (velY (applyGravity p)) \<and>
   (0 \<le> velY (applyGravity p) \<longrightarrow> float_to_int (velY (applyGravity p)) = \<lfloor>velY (applyGravity p)\<rfloor>) \<and>
   (velY (applyGravity p) < 0 \<longrightarrow> float_to_int (velY (applyGravity p)) = \<lceil>velY (applyGravity p)\<rceil>) \<and>
   (\<not> onGround (fst (beforeJump state ps (p, s))) \<longrightarrow>
      velY (fst (update state ps (p, s))) = fadd (velY p) GRAVITY \<and>
      y (rect (fst (update state ps (p, s)))) = y (rect p) + float_to_int (fadd (velY p) GRAVITY)) \<and>
   GRAVITY = 13421773 / 67108864"
proof -
  have "fst (update state ps (p, s)) = (applyGravity (moveHorizontal state p))\<lparr>onGround := False\<rparr>"
    if a: "\<not> onGround (fst (beforeJump state ps (p, s)))"
    using beforeJump_airborne [OF a] a by (simp add: update_pair jumpCheck_def)
  then show ?thesis
    by (simp add: velY_applyGravity y_applyGravity moveHorizontal_frame float_to_int_floor
        float_to_int_ceiling GRAVITY_value)
qed

text \<open>
  C5 as stated fails right after a jump: from velocity \<open>-6\<close> the new velocity is
  about \<open>-5.8\<close>, and the player starting at \<open>y = 480\<close> moves to \<open>475\<close>, where
  the floor would give \<open>474\<close>.
\<close>

theorem floor_step_counterexample:
  "y (rect (applyGravity (startPlayer\<lparr>velY := JUMP_SPEED\<rparr>))) = 475 \<and>
   y (rect (startPlayer\<lparr>velY := JUMP_SPEED\<rparr>)) +
     \<lfloor>velY (applyGravity (startPlayer\<lparr>velY := JUMP_SPEED\<rparr>))\<rfloor> = 474"
  by code_simp

theorem gravity_then_truncated_step_witness:
  "velY (applyGravity (startPlayer\<lparr>velY := JUMP_SPEED\<rparr>)) < 0 \<and>
   float_to_int (velY (applyGravity (startPlayer\<lparr>velY := JUMP_SPEED\<rparr>))) = - 5 \<and>
   0 \<le> velY (applyGravity startPlayer) \<and>
   float_to_int (velY (applyGravity startPlayer)) = 0"
proof -
  have a: "velY (applyGravity (startPlayer\<lparr>velY := JUMP_SPEED\<rparr>)) < 0"
    and b: "\<lceil>velY (applyGravity (startPlayer\<lparr>velY := JUMP_SPEED\<rparr>))\<rceil> = - 5"
    and c: "0 \<le> velY (applyGravity startPlayer)"
    and d: "\<lfloor>velY (applyGravity startPlayer)\<rfloor> = 0"
    by code_simp+
  from a gravity_then_truncated_step
      [of "startPlayer\<lparr>velY := JUMP_SPEED\<rparr>" "\<lambda>k. 0" "platforms initGame" GameScreen]
  have "float_to_int (velY (applyGravity (startPlayer\<lparr>velY := JUMP_SPEED\<rparr>))) =
      \<lceil>velY (applyGravity (startPlayer\<lparr>velY := JUMP_SPEED\<rparr>))\<rceil>"
    by blast
  moreover from c gravity_then_truncated_step [of startPlayer "\<lambda>k. 0" "platforms initGame" GameScreen]
  have "float_to_int (velY (applyGravity startPlayer)) = \<lfloor>velY (applyGravity startPlayer)\<rfloor>"
    by blast
  ultimately show ?thesis
    using a b c d by presburger
qed

text \<open>
  C1, as the code has it. When the player's bottom edge is at or below the ground line
  at the ground test, that test sets \<open>LoseScreen\<close> first; the right-edge test runs
  after it and is not an alternative to it, so when the right edge has reached the
  screen width as well the update returns \<open>WinScreen\<close>. Only when the right edge is
  short of the screen width does \<open>LoseScreen\<close> remain. Either way the player has been
  put on the ground line.
\<close>

theorem win_overrides_lose:
  assumes "GROUND_LEVEL \<le> bottomEdge (rect (beforeGroundCheck state ps p))"
  shows "snd (groundCheck (beforeGroundCheck state ps p, s)) = LoseScreen \<and>
         snd (update state ps (p, s)) =
           (if SCREEN_WIDTH \<le> rightEdge (rect (beforeGroundCheck state ps p)) then WinScreen
            else LoseScreen) \<and>
         bottomEdge (rect (fst (update state ps (p, s)))) = GROUND_LEVEL"
  using assms update_on_ground_line(1) [OF assms, of s]
  by (simp add: groundCheck_screen update_screen beforeJump_screen beforeGroundCheck_frame
      moveHorizontal_frame)

text \<open>
  C1 as stated fails for a player falling along the right border: at \<open>x = 750\<close> with
  bottom edge 550 both conditions hold after the vertical step, and the update
  returns \<open>WinScreen\<close>, not \<open>LoseScreen\<close>.
\<close>

theorem lose_before_win_counterexample:
  "GROUND_LEVEL \<le> bottomEdge (rect (applyGravity (moveHorizontal (\<lambda>k. 0) (new_Player 750 500 50 50 False)))) \<and>
   GROUND_LEVEL \<le> bottomEdge (rect (beforeGroundCheck (\<lambda>k. 0) (platforms initGame) (new_Player 750 500 50 50 False))) \<and>
   SCREEN_WIDTH \<le> rightEdge (rect (beforeGroundCheck (\<lambda>k. 0) (platforms initGame) (new_Player 750 500 50 50 False))) \<and>
   snd (update (\<lambda>k. 0) (platforms initGame) (new_Player 750 500 50 50 False, GameScreen)) = WinScreen \<and>
   snd (update (\<lambda>k. 0) (platforms initGame) (new_Player 750 500 50 50 False, GameScreen)) \<noteq> LoseScreen"
  by code_simp

theorem win_overrides_lose_witness:
  "GROUND_LEVEL \<le> bottomEdge (rect (beforeGroundCheck (\<lambda>k. 0) (platforms initGame) (new_Player 750 500 50 50 False))) \<and>
   snd (update (\<lambda>k. 0) (platforms initGame) (new_Player 750 500 50 50 False, GameScreen)) = WinScreen \<and>
   GROUND_LEVEL \<le> bottomEdge (rect (beforeGroundCheck (\<lambda>k. 0) (platforms initGame) (new_Player 300 500 50 50 False))) \<and>
   snd (update (\<lambda>k. 0) (platforms initGame) (new_Player 300 500 50 50 False, GameScreen)) = LoseScreen"
proof -
  have a: "GROUND_LEVEL \<le> bottomEdge (rect (beforeGroundCheck (\<lambda>k. 0) (platforms initGame) (new_Player 750 500 50 50 False)))"
    and b: "SCREEN_WIDTH \<le> rightEdge (rect (beforeGroundCheck (\<lambda>k. 0) (platforms initGame) (new_Player 750 500 50 50 False)))"
    and c: "GROUND_LEVEL \<le> bottomEdge (rect (beforeGroundCheck (\<lambda>k. 0) (platforms initGame) (new_Player 300 500 50 50 False)))"
    and d: "\<not> SCREEN_WIDTH \<le> rightEdge (rect (beforeGroundCheck (\<lambda>k. 0) (platforms initGame) (new_Player 300 500 50 50 False)))"
    by code_simp+
  have "snd (update (\<lambda>k. 0) (platforms initGame) (new_Player 750 500 50 50 False, GameScreen)) = WinScreen"
    using win_overrides_lose [OF a, of GameScreen] b by presburger
  moreover have "snd (update (\<lambda>k. 0) (platforms initGame) (new_Player 300 500 50 50 False, GameScreen)) = LoseScreen"
    using win_overrides_lose [OF c, of GameScreen] d by presburger
  ultimately show ?thesis
    using a c by blast
qed

text \<open>
  C2. Whenever a platform of the game's platform list passes the test of lines
  151-152 against the player, the collision loop leaves the player's bottom edge on
  that platform's top, grounded, with velocity zero. The loop stops at the first
  platform in list order that passes the test: for any list at all, the platforms
  before the first hit change nothing and the platforms after it are not looked at.
\<close>

theorem platform_snap:
  "(\<forall>pl \<in> set (platforms initGame). hits p pl \<longrightarrow>
      bottomEdge (rect (collidePlatforms p (platforms initGame))) = y (getRect pl) \<and>
      onGround (collidePlatforms p (platforms initGame)) \<and>
      velY (collidePlatforms p (platforms initGame)) = 0) \<and>
   (\<forall>qs pl rest. (\<forall>q \<in> set qs. \<not> hits p q) \<and> hits p pl \<longrightarrow>
      collidePlatforms p (qs @ pl # rest) = landOn p pl \<and>
      bottomEdge (rect (collidePlatforms p (qs @ pl # rest))) = y (getRect pl) \<and>
      onGround (collidePlatforms p (qs @ pl # rest)) \<and>
      velY (collidePlatforms p (qs @ pl # rest)) = 0)"
proof -
  have "bottomEdge (rect (collidePlatforms p (platforms initGame))) = y (getRect pl) \<and>
      onGround (collidePlatforms p (platforms initGame)) \<and>
      velY (collidePlatforms p (platforms initGame)) = 0"
    if "pl \<in> set (platforms initGame)" and "hits p pl" for pl
    using collidePlatforms_level [OF that, of ] platforms_bands [OF that(1) _ that(2)]
    by blast
  then show ?thesis
    by (simp add: collidePlatforms_first_hit landOn_result)
qed

theorem platform_snap_witness:
  "Platform 200 (GROUND_LEVEL - 100) PLATFORM_WIDTH PLATFORM_HEIGHT \<in> set (platforms initGame) \<and>
   hits (new_Player 210 405 50 50 False) (Platform 200 (GROUND_LEVEL - 100) PLATFORM_WIDTH PLATFORM_HEIGHT) \<and>
   bottomEdge (rect (collidePlatforms (new_Player 210 405 50 50 False) (platforms initGame))) = 450 \<and>
   onGround (collidePlatforms (new_Player 210 405 50 50 False) (platforms initGame))"
proof -
  have a: "Platform 200 (GROUND_LEVEL - 100) PLATFORM_WIDTH PLATFORM_HEIGHT \<in> set (platforms initGame)"
    by (simp add: initGame_def)
  have b: "hits (new_Player 210 405 50 50 False) (Platform 200 (GROUND_LEVEL - 100) PLATFORM_WIDTH PLATFORM_HEIGHT)"
    by code_simp
  have c: "y (getRect (Platform 200 (GROUND_LEVEL - 100) PLATFORM_WIDTH PLATFORM_HEIGHT)) = 450"
    by code_simp
  show ?thesis
    using a b c platform_snap [of "new_Player 210 405 50 50 False"] by metis
qed

text \<open>
  C7, as the code has it. Over the six maps, "previous" at index 0 gives 5, and one
  "next" from 5 gives 0 again; a second "next" gives 1. In general, for a list of
  fewer than \<open>2\<^sup>3\<^sup>1\<close> entries and an index within it, "previous" gives the index
  minus one and "next" the index plus one, both modulo the length, so the index stays
  within \<open>[0, length - 1]\<close>. On the map screen a click on the left arrow button is
  "previous" and a click on the right arrow button is "next".
\<close>

theorem carousel_wraps:
  "prevIndex 0 (vector_size mapImagePaths) = 5 \<and>
   nextIndex 5 (vector_size mapImagePaths) = 0 \<and>
   nextIndex 0 (vector_size mapImagePaths) = 1 \<and>
   (0 \<le> sint i \<and> sint i < uint n \<and> uint n < 2 ^ 31 \<longrightarrow>
      sint (prevIndex i n) = (sint i - 1) mod uint n \<and>
      sint (nextIndex i n) = (sint i + 1) mod uint n \<and>
      0 \<le> sint (prevIndex i n) \<and> sint (prevIndex i n) < uint n \<and>
      0 \<le> sint (nextIndex i n) \<and> sint (nextIndex i n) < uint n) \<and>
   (gameState g = MapScreen \<and> containsPoint leftArrowButton mx my \<longrightarrow>
      currentMapIndex (handleEvent env (SDL_MOUSEBUTTONDOWN mx my) g) =
        prevIndex (currentMapIndex g) (vector_size mapImagePaths)) \<and>
   (gameState g = MapScreen \<and> containsPoint rightArrowButton mx my \<longrightarrow>
      currentMapIndex (handleEvent env (SDL_MOUSEBUTTONDOWN mx my) g) =
        nextIndex (currentMapIndex g) (vector_size mapImagePaths))"
proof -
  have "sint (prevIndex i n) = (sint i - 1) mod uint n \<and>
      sint (nextIndex i n) = (sint i + 1) mod uint n \<and>
      0 \<le> sint (prevIndex i n) \<and> sint (prevIndex i n) < uint n \<and>
      0 \<le> sint (nextIndex i n) \<and> sint (nextIndex i n) < uint n"
    if a: "0 \<le> sint i" and b: "sint i < uint n" and c: "uint n < 2 ^ 31"
  proof -
    have pos: "0 < uint n" using a b by simp
    have "0 \<le> (sint i - 1) mod uint n" "(sint i - 1) mod uint n < uint n"
      "0 \<le> (sint i + 1) mod uint n" "(sint i + 1) mod uint n < uint n"
      using pos by simp_all
    then show ?thesis
      by (simp only: prevIndex_sint [OF a b c] nextIndex_sint [OF a b c])
  qed
  moreover have "gameState g = MapScreen \<and> containsPoint leftArrowButton mx my \<longrightarrow>
      currentMapIndex (handleEvent env (SDL_MOUSEBUTTONDOWN mx my) g) =
        prevIndex (currentMapIndex g) (vector_size mapImagePaths)"
    using map_screen_arrows(1) [of g mx my env] by blast
  moreover have "gameState g = MapScreen \<and> containsPoint rightArrowButton mx my \<longrightarrow>
      currentMapIndex (handleEvent env (SDL_MOUSEBUTTONDOWN mx my) g) =
        nextIndex (currentMapIndex g) (vector_size mapImagePaths)"
    using map_screen_arrows(2) [of g mx my env] by blast
  ultimately show ?thesis
    using carousel_concrete by blast
qed

text \<open>
  C7 as stated fails in its example: after "previous" and two "next" the index is
  1, not 0, also when the three clicks go through the event handler.
\<close>

theorem next_twice_counterexample:
  "nextIndex (nextIndex (prevIndex 0 (vector_size mapImagePaths)) (vector_size mapImagePaths))
     (vector_size mapImagePaths) = 1 \<and>
   currentMapIndex (fold (handleEvent all_succeed)
     [SDL_MOUSEBUTTONDOWN 175 325, SDL_MOUSEBUTTONDOWN 625 325, SDL_MOUSEBUTTONDOWN 625 325]
     (initGame\<lparr>gameState := MapScreen\<rparr>)) = 1"
  by code_simp

theorem carousel_wraps_witness:
  "0 \<le> sint (0 :: c_int) \<and> sint (0 :: c_int) < uint (6 :: size_t) \<and> uint (6 :: size_t) < 2 ^ 31 \<and>
   sint (prevIndex 0 6) = 5 \<and> sint (nextIndex 0 6) = 1 \<and>
   gameState (initGame\<lparr>gameState := MapScreen\<rparr>) = MapScreen \<and>
   containsPoint leftArrowButton 175 325 \<and>
   currentMapIndex (handleEvent all_succeed (SDL_MOUSEBUTTONDOWN 175 325) (initGame\<lparr>gameState := MapScreen\<rparr>)) =
     prevIndex (currentMapIndex (initGame\<lparr>gameState := MapScreen\<rparr>)) (vector_size mapImagePaths)"
proof -
  have a: "0 \<le> sint (0 :: c_int) \<and> sint (0 :: c_int) < uint (6 :: size_t) \<and> uint (6 :: size_t) < 2 ^ 31"
    by simp
  have b: "gameState (initGame\<lparr>gameState := MapScreen\<rparr>) = MapScreen \<and>
      containsPoint leftArrowButton 175 325"
    by code_simp
  have c: "(sint (0 :: c_int) - 1) mod uint (6 :: size_t) = 5"
    "(sint (0 :: c_int) + 1) mod uint (6 :: size_t) = 1"
    by simp_all
  show ?thesis
    using a b c
      carousel_wraps [where i = 0 and n = 6 and g = "initGame\<lparr>gameState := MapScreen\<rparr>"
        and mx = 175 and my = 325 and env = all_succeed]
    by metis
qed

text \<open>
  C8. The claim asks for exit code 1 whenever a subsystem fails to initialise or a
  required asset fails to load. \<open>main\<close> returns 1 on each of its five start-up
  failures. When the WAV file does not load, or the audio device does not open,
  \<open>runGameLoop\<close> reports it and returns before its first frame, so the process does
  end early, whatever input would have followed; but \<open>main\<close> then runs on to its
  clean-up and returns 0, where its five sibling failure paths return 1. An image
  that does not load is reported by \<open>loadTexture\<close>, which returns the null handle;
  the game goes on, and which images load has no effect on the exit code.
\<close>

theorem startup_exit_codes:
  "(\<not> SDL_Init_ok env \<or> \<not> IMG_Init_ok env \<or> \<not> TTF_Init_ok env \<or>
    \<not> SDL_CreateWindow_ok env \<or> \<not> SDL_CreateRenderer_ok env \<longrightarrow>
      map_option fst (main env frames) = Some 1) \<and>
   (SDL_Init_ok env \<and> IMG_Init_ok env \<and> TTF_Init_ok env \<and> SDL_CreateWindow_ok env \<and>
    SDL_CreateRenderer_ok env \<and> \<not> SDL_LoadWAV_ok env \<longrightarrow>
      runGameLoop env frames =
        Some (WavLoadFailed ((loadStartTextures env initGame)
          \<lparr>cerr := cerr (loadStartTextures env initGame) @ [Failed_to_load_WAV]\<rparr>)) \<and>
      main env frames = Some (0, cerr (loadStartTextures env initGame) @ [Failed_to_load_WAV])) \<and>
   (SDL_Init_ok env \<and> IMG_Init_ok env \<and> TTF_Init_ok env \<and> SDL_CreateWindow_ok env \<and>
    SDL_CreateRenderer_ok env \<and> SDL_LoadWAV_ok env \<and> \<not> SDL_OpenAudioDevice_ok env \<longrightarrow>
      main env frames =
        Some (0, cerr (loadStartTextures env initGame) @ [Failed_to_open_audio_device])) \<and>
   (\<not> IMG_Load_ok env path \<longrightarrow> loadTexture env path = (None, [Unable_to_load_image path])) \<and>
   (IMG_Load_ok env path \<and> \<not> SDL_CreateTextureFromSurface_ok env path \<longrightarrow>
      loadTexture env path = (None, [Unable_to_create_texture path])) \<and>
   map_option fst
     (main (env\<lparr>IMG_Load_ok := loads, SDL_CreateTextureFromSurface_ok := creates\<rparr>) frames) =
     map_option fst (main env frames)"
proof -
  have "map_option fst
     (main (env\<lparr>IMG_Load_ok := loads, SDL_CreateTextureFromSurface_ok := creates\<rparr>) frames) =
     map_option fst (main env frames)"
    unfolding exit_code_run
    using gameLoop_images [of "env\<lparr>IMG_Load_ok := loads, SDL_CreateTextureFromSurface_ok := creates\<rparr>" frames env]
    by simp
  moreover have "\<not> SDL_Init_ok env \<or> \<not> IMG_Init_ok env \<or> \<not> TTF_Init_ok env \<or>
    \<not> SDL_CreateWindow_ok env \<or> \<not> SDL_CreateRenderer_ok env \<longrightarrow>
      map_option fst (main env frames) = Some 1"
    by (simp add: exit_code_run)
  ultimately show ?thesis
    by (simp add: main_def runGameLoop_def Let_def loadTexture_failures)
qed

theorem startup_exit_codes_witness:
  "main (all_succeed\<lparr>SDL_LoadWAV_ok := False\<rparr>) [([SDL_QUIT], \<lambda>k. 0)] = Some (0, [Failed_to_load_WAV]) \<and>
   map_option fst (main (all_succeed\<lparr>TTF_Init_ok := False\<rparr>) []) = Some 1 \<and>
   loadTexture (all_succeed\<lparr>IMG_Load_ok := (\<lambda>path. False)\<rparr>) ''images/london.bmp'' =
     (None, [Unable_to_load_image ''images/london.bmp'']) \<and>
   map_option fst (main (all_succeed\<lparr>IMG_Load_ok := (\<lambda>path. False),
      SDL_CreateTextureFromSurface_ok := (\<lambda>path. True)\<rparr>) [([SDL_QUIT], \<lambda>k. 0)]) = Some 0"
proof -
  have c: "cerr (loadStartTextures (all_succeed\<lparr>SDL_LoadWAV_ok := False\<rparr>) initGame) = []"
    by code_simp
  have q: "map_option fst (main all_succeed [([SDL_QUIT], \<lambda>k. 0)]) = Some 0"
    by code_simp
  have "main (all_succeed\<lparr>SDL_LoadWAV_ok := False\<rparr>) [([SDL_QUIT], \<lambda>k. 0)] = Some (0, [Failed_to_load_WAV])"
    using startup_exit_codes [of "all_succeed\<lparr>SDL_LoadWAV_ok := False\<rparr>" "[([SDL_QUIT], \<lambda>k. 0)]"] c
    by (simp add: all_succeed_def)
  moreover have "map_option fst (main (all_succeed\<lparr>TTF_Init_ok := False\<rparr>) []) = Some 1"
    using startup_exit_codes [of "all_succeed\<lparr>TTF_Init_ok := False\<rparr>" "[]"]
    by (simp add: all_succeed_def)
  moreover have "loadTexture (all_succeed\<lparr>IMG_Load_ok := (\<lambda>path. False)\<rparr>) ''images/london.bmp'' =
     (None, [Unable_to_load_image ''images/london.bmp''])"
    using startup_exit_codes [where env = "all_succeed\<lparr>IMG_Load_ok := (\<lambda>path. False)\<rparr>"
        and path = "''images/london.bmp''"]
    by (simp add: all_succeed_def)
  moreover have "map_option fst (main (all_succeed\<lparr>IMG_Load_ok := (\<lambda>path. False),
      SDL_CreateTextureFromSurface_ok := (\<lambda>path. True)\<rparr>) [([SDL_QUIT], \<lambda>k. 0)]) = Some 0"
    using startup_exit_codes [where env = all_succeed and frames = "[([SDL_QUIT], \<lambda>k. 0)]"
        and loads = "\<lambda>path. False" and creates = "\<lambda>path. True"] q
    by simp
  ultimately show ?thesis
    by blast
qed

text \<open>
  The run with only the WAV file missing: the diagnostic, and exit code 0. And the
  run with every image missing, closed by the user: six diagnostics, exit code 0.
\<close>

theorem wav_missing_exit_code:
  "main (all_succeed\<lparr>SDL_LoadWAV_ok := False\<rparr>) [] = Some (0, [Failed_to_load_WAV]) \<and>
   main (all_succeed\<lparr>IMG_Load_ok := (\<lambda>path. False)\<rparr>) [([SDL_QUIT], \<lambda>k. 0)] =
     Some (0, [Unable_to_load_image ''images/london.bmp'', Unable_to_load_image ''images/london.bmp'',
       Unable_to_load_image ''images/london.bmp'', Unable_to_load_image ''images/nyc.bmp'',
       Unable_to_load_image ''skins/dziekan.bmp'', Unable_to_load_image ''skins/dziekan.bmp''])"
  by code_simp

text \<open>
  C3, as the code has it. After every update the player's bottom edge is at most the
  ground line, so the player is never left below it: the bottom edge is the smaller
  of the ground line and the bottom edge that the vertical step and the platform
  loop produced. Whenever that bottom edge is at or below the ground line, the
  update leaves the bottom edge exactly on the ground line, the player is grounded
  with velocity zero at the jump test, and the screen becomes \<open>LoseScreen\<close> unless
  the right edge has reached the screen width, which gives \<open>WinScreen\<close>. A player
  grounded with velocity zero at the jump test leaves the update so when the jump
  key is not held; with the key held the jump clears the flag and sets the jump
  speed. For a player whose bottom edge is at or below the ground line when the
  update starts, and whose velocity after gravity does not truncate to an upward
  step, the player is grounded with velocity zero at the jump test in every case;
  and when no platform with its top above the ground line matches the player after
  the vertical step, the bottom edge ends exactly on the ground line, with
  \<open>LoseScreen\<close> or \<open>WinScreen\<close> as before.
\<close>

theorem ground_line_snap:
  "bottomEdge (rect (fst (update state ps (p, s)))) \<le> GROUND_LEVEL \<and>
   bottomEdge (rect (fst (update state ps (p, s)))) =
     min GROUND_LEVEL (bottomEdge (rect (beforeGroundCheck state ps p))) \<and>
   snd (update state ps (p, s)) =
     (if SCREEN_WIDTH \<le> rightEdge (rect (fst (update state ps (p, s)))) then WinScreen
      else if GROUND_LEVEL \<le> bottomEdge (rect (beforeGroundCheck state ps p)) then LoseScreen
      else s) \<and>
   (GROUND_LEVEL \<le> bottomEdge (rect (beforeGroundCheck state ps p)) \<longrightarrow>
      bottomEdge (rect (fst (update state ps (p, s)))) = GROUND_LEVEL \<and>
      onGround (fst (beforeJump state ps (p, s))) \<and>
      velY (fst (beforeJump state ps (p, s))) = 0 \<and>
      (state SDL_SCANCODE_W = 0 \<longrightarrow>
         onGround (fst (update state ps (p, s))) \<and> velY (fst (update state ps (p, s))) = 0) \<and>
      (state SDL_SCANCODE_W \<noteq> 0 \<longrightarrow>
         \<not> onGround (fst (update state ps (p, s))) \<and>
         velY (fst (update state ps (p, s))) = JUMP_SPEED) \<and>
      (rightEdge (rect (fst (update state ps (p, s)))) < SCREEN_WIDTH \<longrightarrow>
         snd (update state ps (p, s)) = LoseScreen)) \<and>
   (GROUND_LEVEL \<le> bottomEdge (rect p) \<and> 0 \<le> float_to_int (fadd (velY p) GRAVITY) \<longrightarrow>
      onGround (fst (beforeJump state ps (p, s))) \<and>
      velY (fst (beforeJump state ps (p, s))) = 0 \<and>
      (state SDL_SCANCODE_W = 0 \<longrightarrow>
         onGround (fst (update state ps (p, s))) \<and> velY (fst (update state ps (p, s))) = 0) \<and>
      (state SDL_SCANCODE_W \<noteq> 0 \<longrightarrow>
         \<not> onGround (fst (update state ps (p, s))) \<and>
         velY (fst (update state ps (p, s))) = JUMP_SPEED) \<and>
      ((\<forall>pl \<in> set ps. hits (applyGravity (moveHorizontal state p)) pl \<longrightarrow>
          GROUND_LEVEL \<le> y (getRect pl)) \<longrightarrow>
         bottomEdge (rect (fst (update state ps (p, s)))) = GROUND_LEVEL \<and>
         (rightEdge (rect (fst (update state ps (p, s)))) < SCREEN_WIDTH \<longrightarrow>
            snd (update state ps (p, s)) = LoseScreen)))"
proof -
  let ?b = "bottomEdge (rect (beforeGroundCheck state ps p))"
  have first: "bottomEdge (rect (fst (update state ps (p, s)))) \<le> GROUND_LEVEL \<and>
      bottomEdge (rect (fst (update state ps (p, s)))) = min GROUND_LEVEL ?b"
    by (simp only: bottom_update) simp
  have at_line: "bottomEdge (rect (fst (update state ps (p, s)))) = GROUND_LEVEL \<and>
      (rightEdge (rect (fst (update state ps (p, s)))) < SCREEN_WIDTH \<longrightarrow>
         snd (update state ps (p, s)) = LoseScreen)"
    if "GROUND_LEVEL \<le> ?b"
    using that update_screen_cases [of state ps p s] by (simp add: bottom_update)
  have jump: "onGround (fst (beforeJump state ps (p, s))) \<and>
      velY (fst (beforeJump state ps (p, s))) = 0 \<and>
      (state SDL_SCANCODE_W = 0 \<longrightarrow>
         onGround (fst (update state ps (p, s))) \<and> velY (fst (update state ps (p, s))) = 0) \<and>
      (state SDL_SCANCODE_W \<noteq> 0 \<longrightarrow>
         \<not> onGround (fst (update state ps (p, s))) \<and>
         velY (fst (update state ps (p, s))) = JUMP_SPEED)"
    if "GROUND_LEVEL \<le> ?b \<or>
        onGround (beforeGroundCheck state ps p) \<and> velY (beforeGroundCheck state ps p) = 0"
    using grounded_before_jump [OF that, of s]
      update_jump_cases [OF grounded_before_jump [OF that, of s]]
    by blast
  have start: "GROUND_LEVEL \<le> ?b \<or>
        onGround (beforeGroundCheck state ps p) \<and> velY (beforeGroundCheck state ps p) = 0"
    if "GROUND_LEVEL \<le> bottomEdge (rect p)" "0 \<le> float_to_int (fadd (velY p) GRAVITY)"
    using that by (rule grounded_at_ground_check)
  have reach: "GROUND_LEVEL \<le> ?b"
    if "GROUND_LEVEL \<le> bottomEdge (rect p)" "0 \<le> float_to_int (fadd (velY p) GRAVITY)"
      "\<forall>pl \<in> set ps. hits (applyGravity (moveHorizontal state p)) pl \<longrightarrow>
          GROUND_LEVEL \<le> y (getRect pl)"
    using that by (rule reaches_ground_line)
  show ?thesis
    using first update_screen_cases [of state ps p s] at_line jump start reach
    by blast
qed

text \<open>
  C3 as stated fails in four ways, each at a player whose bottom edge is at or below
  the ground line (550) when the update starts. Standing under the lowest platform,
  whose band reaches down to the ground line, the player is lifted onto it (bottom
  edge 530) and the screen stays \<open>GameScreen\<close>. Moving up with the jump speed, the
  player leaves the ground (bottom edge 545), airborne with a negative velocity.
  With the jump key held, the player that has just been put on the ground line
  jumps: not grounded, velocity \<open>-6\<close>. At the right border the screen becomes
  \<open>WinScreen\<close>.
\<close>

theorem ground_line_counterexample:
  "GROUND_LEVEL = 550 \<and>
   bottomEdge (rect (new_Player 0 500 50 50 True)) = 550 \<and>
   bottomEdge (rect (fst (update (\<lambda>k. 0) (platforms initGame) (new_Player 0 500 50 50 True, GameScreen)))) = 530 \<and>
   snd (update (\<lambda>k. 0) (platforms initGame) (new_Player 0 500 50 50 True, GameScreen)) = GameScreen \<and>
   bottomEdge (rect ((new_Player 300 500 50 50 False)\<lparr>velY := JUMP_SPEED\<rparr>)) = 550 \<and>
   bottomEdge (rect (fst (update (\<lambda>k. 0) (platforms initGame)
     ((new_Player 300 500 50 50 False)\<lparr>velY := JUMP_SPEED\<rparr>, GameScreen)))) = 545 \<and>
   \<not> onGround (fst (update (\<lambda>k. 0) (platforms initGame)
     ((new_Player 300 500 50 50 False)\<lparr>velY := JUMP_SPEED\<rparr>, GameScreen))) \<and>
   velY (fst (update (\<lambda>k. 0) (platforms initGame)
     ((new_Player 300 500 50 50 False)\<lparr>velY := JUMP_SPEED\<rparr>, GameScreen))) < 0 \<and>
   snd (update (\<lambda>k. 0) (platforms initGame)
     ((new_Player 300 500 50 50 False)\<lparr>velY := JUMP_SPEED\<rparr>, GameScreen)) = GameScreen \<and>
   bottomEdge (rect (new_Player 300 500 50 50 True)) = 550 \<and>
   \<not> onGround (fst (update (\<lambda>k. if k = SDL_SCANCODE_W then 1 else 0) (platforms initGame)
     (new_Player 300 500 50 50 True, GameScreen))) \<and>
   velY (fst (update (\<lambda>k. if k = SDL_SCANCODE_W then 1 else 0) (platforms initGame)
     (new_Player 300 500 50 50 True, GameScreen))) = - 6 \<and>
   bottomEdge (rect (new_Player 750 510 50 50 True)) = 560 \<and>
   snd (update (\<lambda>k. 0) (platforms initGame) (new_Player 750 510 50 50 True, GameScreen)) = WinScreen"
  by code_simp

theorem ground_line_snap_witness:
  "GROUND_LEVEL \<le> bottomEdge (rect (new_Player 300 500 50 50 True)) \<and>
   0 \<le> float_to_int (fadd (velY (new_Player 300 500 50 50 True)) GRAVITY) \<and>
   \<not> (\<exists>pl \<in> set (platforms initGame).
      hits (applyGravity (moveHorizontal (\<lambda>k. 0) (new_Player 300 500 50 50 True))) pl) \<and>
   bottomEdge (rect (fst (update (\<lambda>k. 0) (platforms initGame) (new_Player 300 500 50 50 True, GameScreen)))) = GROUND_LEVEL \<and>
   onGround (fst (update (\<lambda>k. 0) (platforms initGame) (new_Player 300 500 50 50 True, GameScreen))) \<and>
   velY (fst (update (\<lambda>k. 0) (platforms initGame) (new_Player 300 500 50 50 True, GameScreen))) = 0 \<and>
   snd (update (\<lambda>k. 0) (platforms initGame) (new_Player 300 500 50 50 True, GameScreen)) = LoseScreen \<and>
   GROUND_LEVEL \<le> bottomEdge (rect (new_Player 0 500 50 50 True)) \<and>
   0 \<le> float_to_int (fadd (velY (new_Player 0 500 50 50 True)) GRAVITY) \<and>
   onGround (fst (update (\<lambda>k. 0) (platforms initGame) (new_Player 0 500 50 50 True, GameScreen))) \<and>
   velY (fst (update (\<lambda>k. 0) (platforms initGame) (new_Player 0 500 50 50 True, GameScreen))) = 0 \<and>
   bottomEdge (rect (fst (update (\<lambda>k. 0) (platforms initGame) (new_Player 0 500 50 50 True, GameScreen)))) \<le> GROUND_LEVEL"
proof -
  have a: "GROUND_LEVEL \<le> bottomEdge (rect (new_Player 300 500 50 50 True))"
    and b: "0 \<le> float_to_int (fadd (velY (new_Player 300 500 50 50 True)) GRAVITY)"
    and c: "\<not> (\<exists>pl \<in> set (platforms initGame).
      hits (applyGravity (moveHorizontal (\<lambda>k. 0) (new_Player 300 500 50 50 True))) pl)"
    and d: "rightEdge (rect (fst (update (\<lambda>k. 0) (platforms initGame) (new_Player 300 500 50 50 True, GameScreen)))) < SCREEN_WIDTH"
    and e: "GROUND_LEVEL \<le> bottomEdge (rect (new_Player 0 500 50 50 True))"
    and f: "0 \<le> float_to_int (fadd (velY (new_Player 0 500 50 50 True)) GRAVITY)"
    by code_simp+
  have k: "(\<lambda>k. 0 :: 8 word) SDL_SCANCODE_W = 0"
    by simp
  from c have c': "\<forall>pl \<in> set (platforms initGame).
      hits (applyGravity (moveHorizontal (\<lambda>k. 0) (new_Player 300 500 50 50 True))) pl \<longrightarrow>
        GROUND_LEVEL \<le> y (getRect pl)"
    by blast
  have one: "bottomEdge (rect (fst (update (\<lambda>k. 0) (platforms initGame) (new_Player 300 500 50 50 True, GameScreen)))) = GROUND_LEVEL \<and>
   onGround (fst (update (\<lambda>k. 0) (platforms initGame) (new_Player 300 500 50 50 True, GameScreen))) \<and>
   velY (fst (update (\<lambda>k. 0) (platforms initGame) (new_Player 300 500 50 50 True, GameScreen))) = 0 \<and>
   snd (update (\<lambda>k. 0) (platforms initGame) (new_Player 300 500 50 50 True, GameScreen)) = LoseScreen"
    using a b c' d k
      ground_line_snap [of "\<lambda>k. 0" "platforms initGame" "new_Player 300 500 50 50 True" GameScreen]
    by blast
  have two: "onGround (fst (update (\<lambda>k. 0) (platforms initGame) (new_Player 0 500 50 50 True, GameScreen))) \<and>
   velY (fst (update (\<lambda>k. 0) (platforms initGame) (new_Player 0 500 50 50 True, GameScreen))) = 0 \<and>
   bottomEdge (rect (fst (update (\<lambda>k. 0) (platforms initGame) (new_Player 0 500 50 50 True, GameScreen)))) \<le> GROUND_LEVEL"
    using e f k
      ground_line_snap [of "\<lambda>k. 0" "platforms initGame" "new_Player 0 500 50 50 True" GameScreen]
    by blast
  show ?thesis
    using a b c e f one two by blast
qed

end
